theory Spec2Isabelle
  imports
    Main
    "HOL-Library.Char_ord"
    "HOL-Library.List_Lexorder"
    "HOL-Library.Product_Lexorder"
    "HOL-Library.Option_ord"
    "HOL-Library.Multiset"
    "HOL-Library.AList"
begin

section \<open>Strings\<close>

text \<open>
  A Python \<open>str\<close> is modelled as a \<open>string\<close> whose characters are the code points
  below 256. The library predicates below are Python's, restricted to that range.
\<close>

definition code :: "char \<Rightarrow> nat" where
  "code c = of_char c"

text \<open>\<open>str.isspace\<close> on one character; also the class \<open>\s\<close> of \<open>re\<close>.\<close>

definition py_isspace :: "char \<Rightarrow> bool" where
  "py_isspace c \<longleftrightarrow> code c \<in> {9, 10, 11, 12, 13, 28, 29, 30, 31, 32, 133, 160}"

definition py_lstrip :: "string \<Rightarrow> string" where
  "py_lstrip s = dropWhile py_isspace s"

definition py_rstrip :: "string \<Rightarrow> string" where
  "py_rstrip s = rev (dropWhile py_isspace (rev s))"

definition py_strip :: "string \<Rightarrow> string" where
  "py_strip s = py_rstrip (py_lstrip s)"

definition py_lower_char :: "char \<Rightarrow> char" where
  "py_lower_char c =
     (let n = code c
      in if (65 \<le> n \<and> n \<le> 90) \<or> (192 \<le> n \<and> n \<le> 222 \<and> n \<noteq> 215)
         then char_of (n + 32) else c)"

definition py_lower :: "string \<Rightarrow> string" where
  "py_lower s = map py_lower_char s"

definition startswith :: "string \<Rightarrow> string \<Rightarrow> bool" where
  "startswith s p \<longleftrightarrow> take (length p) s = p"

section \<open>The Dependency record\<close>

text \<open>
  \<^verbatim>\<open>@dataclass class Dependency: name: str; version: Optional[str] = None;
  source: str = ""; file_path: str = ""\<close>
\<close>

record dependency =
  dep_name :: string
  dep_version :: "string option"
  dep_source :: string
  dep_file_path :: string

text \<open>The other operand of \<open>__eq__\<close> may be any object.\<close>

datatype pyobj = PyDep dependency | PyOther string

text \<open>\<open>return hash((self.name, self.version))\<close>, for any hash \<open>h\<close> of tuples.\<close>

definition dep_hash :: "(string \<times> string option \<Rightarrow> int) \<Rightarrow> dependency \<Rightarrow> int" where
  "dep_hash h d = h (dep_name d, dep_version d)"

text \<open>
  \<open>isinstance(other, Dependency) and (self.name, self.version) == (other.name, other.version)\<close>
\<close>

fun dep_eq :: "dependency \<Rightarrow> pyobj \<Rightarrow> bool" where
  "dep_eq d (PyDep other) \<longleftrightarrow>
     (dep_name d, dep_version d) = (dep_name other, dep_version other)"
| "dep_eq d (PyOther _) \<longleftrightarrow> False"

text \<open>
  A Python \<open>set\<close> of dependencies, as the list of its elements. \<open>set.add\<close> looks for an
  element with the same hash that \<open>__eq__\<close> accepts and inserts only when there is none
  (the element already stored is kept).
\<close>

definition set_contains :: "(string \<times> string option \<Rightarrow> int) \<Rightarrow> dependency list \<Rightarrow> dependency \<Rightarrow> bool" where
  "set_contains h s d \<longleftrightarrow> list_ex (\<lambda>e. dep_hash h e = dep_hash h d \<and> dep_eq e (PyDep d)) s"

definition set_add :: "(string \<times> string option \<Rightarrow> int) \<Rightarrow> dependency list \<Rightarrow> dependency \<Rightarrow> dependency list" where
  "set_add h s d = (if set_contains h s d then s else s @ [d])"

definition dep_identity :: "dependency \<Rightarrow> string \<times> string option" where
  "dep_identity d = (dep_name d, dep_version d)"

text \<open>No two stored entries have the same name and version.\<close>

definition identity_inv :: "dependency list \<Rightarrow> bool" where
  "identity_inv s \<longleftrightarrow> distinct (map dep_identity s)"

section \<open>Missing packages\<close>

text \<open>A \<open>dict\<close> with string keys, as an association list with distinct keys.\<close>

type_synonym 'v dict = "(string \<times> 'v) list"

definition dict_in :: "string \<Rightarrow> 'v dict \<Rightarrow> bool" where
  "dict_in k d \<longleftrightarrow> map_of d k \<noteq> None"

definition dict_set :: "'v dict \<Rightarrow> string \<Rightarrow> 'v \<Rightarrow> 'v dict" where
  "dict_set d k v = AList.update k v d"

definition name_mappings :: "string dict" where
  "name_mappings = [(''nlohmann_json'', ''jsonmcpp'')]"

text \<open>\<open>{k.lower(): v for k, v in lcg_packages.items()}\<close>\<close>

definition lower_keys :: "string dict \<Rightarrow> string dict" where
  "lower_keys lcg_packages = foldl (\<lambda>d (k, v). dict_set d (py_lower k) v) [] lcg_packages"

text \<open>The loop body of \<open>find_missing_packages\<close>: each \<open>continue\<close> leaves \<open>missing\<close> as it is.\<close>

fun find_missing_loop :: "string dict \<Rightarrow> string dict \<Rightarrow> string list \<Rightarrow> string list \<Rightarrow> string list" where
  "find_missing_loop lcg_packages lcg_packages_lower [] missing = missing"
| "find_missing_loop lcg_packages lcg_packages_lower (pkg # rest) missing =
     (if dict_in pkg lcg_packages then
        find_missing_loop lcg_packages lcg_packages_lower rest missing
      else if dict_in (py_lower pkg) lcg_packages_lower then
        find_missing_loop lcg_packages lcg_packages_lower rest missing
      else
        (case map_of name_mappings pkg of
           Some mapped_name \<Rightarrow>
             if dict_in mapped_name lcg_packages \<or> dict_in (py_lower mapped_name) lcg_packages_lower
             then find_missing_loop lcg_packages lcg_packages_lower rest missing
             else find_missing_loop lcg_packages lcg_packages_lower rest (missing @ [pkg])
         | None \<Rightarrow> find_missing_loop lcg_packages lcg_packages_lower rest (missing @ [pkg])))"

definition find_missing_packages :: "string list \<Rightarrow> string dict \<Rightarrow> string list" where
  "find_missing_packages build_packages lcg_packages =
     find_missing_loop lcg_packages (lower_keys lcg_packages) build_packages []"

text \<open>The three matching strategies, as the specification words them.\<close>

definition exact_match :: "string dict \<Rightarrow> string \<Rightarrow> bool" where
  "exact_match lcg p \<longleftrightarrow> p \<in> fst ` set lcg"

definition case_insensitive_match :: "string dict \<Rightarrow> string \<Rightarrow> bool" where
  "case_insensitive_match lcg p \<longleftrightarrow> (\<exists>k \<in> fst ` set lcg. py_lower k = py_lower p)"

definition alias_match :: "string dict \<Rightarrow> string \<Rightarrow> bool" where
  "alias_match lcg p \<longleftrightarrow>
     (case map_of name_mappings p of
        None \<Rightarrow> False
      | Some mapped \<Rightarrow> exact_match lcg mapped \<or> case_insensitive_match lcg mapped)"

section \<open>Version numbering\<close>

text \<open>The exceptions that the modelled code can raise.\<close>

datatype py_exception =
    NotADirectoryError | FileExistsError | OSError | AttributeError | IndexError | ValueError
  | TypeError | UnicodeDecodeError | UnicodeEncodeError | URLError | InvalidURL

text \<open>
  Whitespace that \<open>int()\<close> skips at both ends of its argument. (\<open>int()\<close> also refuses
  more than 4300 digits; a file name is shorter.)
\<close>

definition int_isspace :: "char \<Rightarrow> bool" where
  "int_isspace c \<longleftrightarrow> code c \<in> {9, 10, 11, 12, 13, 32, 133, 160}"

definition is_digit :: "char \<Rightarrow> bool" where
  "is_digit c \<longleftrightarrow> 48 \<le> code c \<and> code c \<le> 57"

definition digit_val :: "char \<Rightarrow> nat" where
  "digit_val c = code c - 48"

text \<open>Digits after the first one; a single underscore may separate two digits.\<close>

fun py_digits :: "nat \<Rightarrow> string \<Rightarrow> nat option" where
  "py_digits acc [] = Some acc"
| "py_digits acc [c] = (if is_digit c then Some (10 * acc + digit_val c) else None)"
| "py_digits acc (c # d # ds) =
     (if is_digit c then py_digits (10 * acc + digit_val c) (d # ds)
      else if c = CHR ''_'' \<and> is_digit d then py_digits (10 * acc + digit_val d) ds
      else None)"

definition py_unsigned :: "string \<Rightarrow> nat option" where
  "py_unsigned s = (case s of [] \<Rightarrow> None
     | c # cs \<Rightarrow> if is_digit c then py_digits (digit_val c) cs else None)"

text \<open>\<open>int(s)\<close> in base ten; \<open>None\<close> is the \<open>ValueError\<close>.\<close>

definition python_int :: "string \<Rightarrow> int option" where
  "python_int s =
     (let t = rev (dropWhile int_isspace (rev (dropWhile int_isspace s)))
      in case t of
           [] \<Rightarrow> None
         | c # cs \<Rightarrow>
             if c = CHR ''-'' then map_option (\<lambda>n. - int n) (py_unsigned cs)
             else if c = CHR ''+'' then map_option int (py_unsigned cs)
             else map_option int (py_unsigned t))"

text \<open>
  What \<open>Path(sboms_dir)\<close> names: nothing, a file, or a directory with its entries,
  each a name and whether \<open>is_dir()\<close> holds for it, in the order \<open>iterdir()\<close> yields them.
\<close>

datatype fs_node = Absent | File | Dir "(string \<times> bool) list"

text \<open>The loop that fills \<open>version_dirs\<close>.\<close>

fun collect_versions :: "(string \<times> bool) list \<Rightarrow> int list \<Rightarrow> int list" where
  "collect_versions [] version_dirs = version_dirs"
| "collect_versions ((item_name, item_is_dir) # rest) version_dirs =
     (if item_is_dir \<and> startswith item_name ''v'' then
        (case python_int (drop 1 item_name) of
           Some version_num \<Rightarrow> collect_versions rest (version_dirs @ [version_num])
         | None \<Rightarrow> collect_versions rest version_dirs)
      else collect_versions rest version_dirs)"

text \<open>\<open>max\<close> of a non-empty list.\<close>

fun py_max :: "int list \<Rightarrow> int" where
  "py_max [] = 0"
| "py_max [x] = x"
| "py_max (x # y # ys) = (let m = py_max (y # ys) in if m > x then m else x)"

definition get_next_version_number :: "fs_node \<Rightarrow> py_exception + int" where
  "get_next_version_number sboms_path =
     (case sboms_path of
        Absent \<Rightarrow> Inr 1
      | File \<Rightarrow> Inl NotADirectoryError
      | Dir entries \<Rightarrow>
          (let version_dirs = collect_versions entries []
           in if version_dirs = [] then Inr 1 else Inr (py_max version_dirs + 1)))"

text \<open>
  The numbers of the version directories: some entry that is a directory is named
  \<open>v\<close> followed by a string that \<open>int()\<close> parses to the number.
\<close>

definition version_numbers :: "(string \<times> bool) list \<Rightarrow> int set" where
  "version_numbers entries =
     {n. \<exists>suffix. (CHR ''v'' # suffix, True) \<in> set entries \<and> python_int suffix = Some n}"

section \<open>The manifest document and its signature\<close>

text \<open>
  The manifest as \<open>json.load\<close> returns it: an object whose keys may be absent
  (\<open>dict.get\<close> then takes its default) and whose names, versions and values are strings.
\<close>

record property =
  prop_name :: "string option"
  prop_value :: "string option"

record component =
  comp_type :: "string option"
  comp_name :: "string option"
  comp_version :: "string option"
  comp_properties :: "property list option"

record metadata =
  meta_timestamp :: "string option"
  meta_properties :: "property list option"

record sbom =
  sbom_schema :: "string option"
  sbom_bomFormat :: "string option"
  sbom_specVersion :: "string option"
  sbom_serialNumber :: "string option"
  sbom_version :: "int option"
  sbom_metadata :: "metadata option"
  sbom_components :: "component list option"

text \<open>\<open>d.get(key, default)\<close>, the key's entry given as an option.\<close>

definition get_or :: "'a option \<Rightarrow> 'a \<Rightarrow> 'a" where
  "get_or entry dflt = (case entry of Some v \<Rightarrow> v | None \<Rightarrow> dflt)"

definition empty_metadata :: metadata where
  "empty_metadata = \<lparr>meta_timestamp = None, meta_properties = None\<rparr>"

text \<open>
  A signature is a tuple of labelled parts: \<open>('components', ...)\<close>,
  \<open>('properties', ...)\<close> and, with build information, \<open>('build_info', ...)\<close>.
  The values of a build-information dict are what \<open>m.group(1)\<close> returns.
\<close>

datatype sig_part =
    Components "(string \<times> string) list"
  | Properties "(string \<times> string) list"
  | Build_info "(string \<times> string option) list"

type_synonym signature = "sig_part list"

text \<open>\<open>for prop in properties: props_dict[prop.get('name', '')] = prop.get('value', '')\<close>\<close>

definition props_dict_of :: "property list \<Rightarrow> string dict" where
  "props_dict_of properties =
     foldl (\<lambda>props_dict prop.
              dict_set props_dict (get_or (prop_name prop) '''') (get_or (prop_value prop) ''''))
       [] properties"

definition get_sbom_signature :: "sbom \<Rightarrow> string option dict option \<Rightarrow> signature" where
  "get_sbom_signature sbom_data build_info =
     (let components = get_or (sbom_components sbom_data) [];
          normalized_components =
            sort (map (\<lambda>comp. (get_or (comp_name comp) '''', get_or (comp_version comp) ''''))
                    components);
          signature_parts1 = [Components normalized_components];
          metadata = get_or (sbom_metadata sbom_data) empty_metadata;
          properties = get_or (meta_properties metadata) [];
          normalized_props = sort (props_dict_of properties);
          signature_parts2 = signature_parts1 @ [Properties normalized_props]
      in case build_info of
           None \<Rightarrow> signature_parts2
         | Some b \<Rightarrow>
             if b \<noteq> [] then signature_parts2 @ [Build_info (sort b)]
             else signature_parts2)"

text \<open>The name and value that a property contributes to \<open>props_dict\<close>.\<close>

definition prop_item :: "property \<Rightarrow> string \<times> string" where
  "prop_item prop = (get_or (prop_name prop) '''', get_or (prop_value prop) '''')"

text \<open>No two properties carry the same name with different values.\<close>

definition names_agree :: "property list \<Rightarrow> bool" where
  "names_agree ps \<longleftrightarrow>
     (\<forall>p \<in> set ps. \<forall>q \<in> set ps. fst (prop_item p) = fst (prop_item q) \<longrightarrow> prop_item p = prop_item q)"

text \<open>A small manifest, for the examples: its metadata properties and components are given.\<close>

definition example_sbom :: "property list \<Rightarrow> component list \<Rightarrow> sbom" where
  "example_sbom ps cs =
     \<lparr>sbom_schema = Some ''http://cyclonedx.org/schema/bom-1.4.schema.json'',
      sbom_bomFormat = Some ''CycloneDX'', sbom_specVersion = Some ''1.4'',
      sbom_serialNumber = Some ''urn:uuid:0'', sbom_version = Some 1,
      sbom_metadata = Some \<lparr>meta_timestamp = Some ''2025-01-01T00:00:00'', meta_properties = Some ps\<rparr>,
      sbom_components = Some cs\<rparr>"

definition example_property :: "string \<Rightarrow> string \<Rightarrow> property" where
  "example_property n v = \<lparr>prop_name = Some n, prop_value = Some v\<rparr>"

definition example_component :: "string \<Rightarrow> string \<Rightarrow> component" where
  "example_component n v =
     \<lparr>comp_type = Some ''library'', comp_name = Some n, comp_version = Some v, comp_properties = None\<rparr>"

section \<open>Strings: the library functions the parsers call\<close>

definition newline :: char where
  "newline = CHR 0x0A"

definition dquote :: char where
  "dquote = CHR 0x22"

text \<open>\<open>sub in s\<close>: some position of \<open>s\<close> starts with \<open>sub\<close>.\<close>

definition py_contains :: "string \<Rightarrow> string \<Rightarrow> bool" where
  "py_contains sub s \<longleftrightarrow> list_ex (\<lambda>i. take (length sub) (drop i s) = sub) [0..<Suc (length s)]"

text \<open>The text before and after the first occurrence of a non-empty separator.\<close>

fun partition_first :: "string \<Rightarrow> string \<Rightarrow> (string \<times> string) option" where
  "partition_first sep [] = None"
| "partition_first sep (c # cs) =
     (if take (length sep) (c # cs) = sep then Some ([], drop (length sep) (c # cs))
      else (case partition_first sep cs of
              None \<Rightarrow> None
            | Some (pre, post) \<Rightarrow> Some (c # pre, post)))"

text \<open>\<open>s.split(sep, 1)\<close> for a non-empty \<open>sep\<close>.\<close>

definition py_split1 :: "string \<Rightarrow> string \<Rightarrow> string list" where
  "py_split1 s sep = (case partition_first sep s of
                        None \<Rightarrow> [s]
                      | Some (pre, post) \<Rightarrow> [pre, post])"

text \<open>\<open>s.split(c)\<close> for a separator of one character.\<close>

fun py_split_char :: "char \<Rightarrow> string \<Rightarrow> string list" where
  "py_split_char sep [] = [[]]"
| "py_split_char sep (c # cs) =
     (if c = sep then [] # py_split_char sep cs
      else (case py_split_char sep cs of
              [] \<Rightarrow> [[c]]
            | w # ws \<Rightarrow> (c # w) # ws))"

text \<open>\<open>s.split()\<close>: the words between runs of whitespace; \<open>w\<close> is the word being read, reversed.\<close>

fun split_words :: "string \<Rightarrow> string \<Rightarrow> string list" where
  "split_words [] w = (if w = [] then [] else [rev w])"
| "split_words (c # cs) w =
     (if py_isspace c then (if w = [] then split_words cs [] else rev w # split_words cs [])
      else split_words cs (c # w))"

definition py_split :: "string \<Rightarrow> string list" where
  "py_split s = split_words s []"

text \<open>The lines of a text as \<open>readlines()\<close> and iteration over the file give them: each keeps its newline.\<close>

fun readlines :: "string \<Rightarrow> string list" where
  "readlines [] = []"
| "readlines (c # cs) =
     (if c = newline then [c] # readlines cs
      else (case readlines cs of
              [] \<Rightarrow> [[c]]
            | l # ls \<Rightarrow> (c # l) # ls))"

text \<open>\<open>s.replace(a, b)\<close> for single characters.\<close>

definition py_replace_char :: "char \<Rightarrow> char \<Rightarrow> string \<Rightarrow> string" where
  "py_replace_char a b s = map (\<lambda>c. if c = a then b else c) s"

text \<open>\<open>str(n)\<close> for an integer.\<close>

fun str_nat :: "nat \<Rightarrow> string" where
  "str_nat n = (if n < 10 then [char_of (48 + n)] else str_nat (n div 10) @ [char_of (48 + n mod 10)])"

declare str_nat.simps [simp del]

definition str_int :: "int \<Rightarrow> string" where
  "str_int i = (if i < 0 then CHR ''-'' # str_nat (nat (- i)) else str_nat (nat i))"

section \<open>Regular expressions\<close>

text \<open>
  The fragment of \<open>re\<close> that the parsers use: literal text, one character of a class,
  a class repeated (\<open>*\<close> greedy, \<open>*?\<close> lazy), sequence, alternation, numbered groups
  and the anchors \<open>^\<close> and \<open>$\<close> (no flags). \<open>x+\<close> is \<open>x\<close> then \<open>x*\<close>, and \<open>r?\<close> is
  \<open>r\<close> or nothing.
\<close>

datatype rx =
    Lit string
  | Cls "char \<Rightarrow> bool"
  | Many "char \<Rightarrow> bool"
  | Few "char \<Rightarrow> bool"
  | Seq rx rx
  | Alt rx rx
  | Grp nat rx
  | Bol
  | Eol

text \<open>A state of the matcher: the input not yet consumed, and the groups captured, latest first.\<close>

type_synonym mstate = "string \<times> (nat \<times> string) list"

text \<open>What is left after \<open>P*\<close>, from the longest run to the empty one.\<close>

fun many_rests :: "(char \<Rightarrow> bool) \<Rightarrow> string \<Rightarrow> string list" where
  "many_rests P [] = [[]]"
| "many_rests P (c # cs) = (if P c then many_rests P cs else []) @ [c # cs]"

text \<open>
  All ways to match at the head of the remaining input, in the order in which the
  backtracking matcher tries them; \<open>n\<close> is the length of the whole subject.
\<close>

fun rmatch :: "rx \<Rightarrow> nat \<Rightarrow> mstate \<Rightarrow> mstate list" where
  "rmatch (Lit w) n (s, g) = (if take (length w) s = w then [(drop (length w) s, g)] else [])"
| "rmatch (Cls P) n (s, g) = (case s of [] \<Rightarrow> [] | c # cs \<Rightarrow> if P c then [(cs, g)] else [])"
| "rmatch (Many P) n (s, g) = map (\<lambda>r. (r, g)) (many_rests P s)"
| "rmatch (Few P) n (s, g) = map (\<lambda>r. (r, g)) (rev (many_rests P s))"
| "rmatch (Seq r1 r2) n (s, g) = concat (map (rmatch r2 n) (rmatch r1 n (s, g)))"
| "rmatch (Alt r1 r2) n (s, g) = rmatch r1 n (s, g) @ rmatch r2 n (s, g)"
| "rmatch (Grp k r) n (s, g) =
     map (\<lambda>(s', g'). (s', (k, take (length s - length s') s) # g')) (rmatch r n (s, g))"
| "rmatch Bol n (s, g) = (if length s = n then [(s, g)] else [])"
| "rmatch Eol n (s, g) = (if s = [] \<or> s = [newline] then [(s, g)] else [])"

definition Plus :: "(char \<Rightarrow> bool) \<Rightarrow> rx" where
  "Plus P = Seq (Cls P) (Many P)"

definition Opt :: "rx \<Rightarrow> rx" where
  "Opt r = Alt r (Lit [])"

fun Seqs :: "rx list \<Rightarrow> rx" where
  "Seqs [] = Lit []"
| "Seqs [r] = r"
| "Seqs (r # rs) = Seq r (Seqs rs)"

text \<open>A match object: the text matched and the groups.\<close>

record rmatch_obj =
  m_text :: string
  m_groups :: "(nat \<times> string) list"

text \<open>\<open>m.group(k)\<close>; \<open>None\<close> when the group took no part in the match.\<close>

definition group :: "rmatch_obj \<Rightarrow> nat \<Rightarrow> string option" where
  "group m k = (if k = 0 then Some (m_text m) else map_of (m_groups m) k)"

text \<open>The first way to match at the head of \<open>s\<close>, a suffix of the subject.\<close>

definition match_at :: "rx \<Rightarrow> nat \<Rightarrow> string \<Rightarrow> rmatch_obj option" where
  "match_at r n s =
     (case rmatch r n (s, []) of
        [] \<Rightarrow> None
      | (s', g) # _ \<Rightarrow> Some \<lparr>m_text = take (length s - length s') s, m_groups = g\<rparr>)"

text \<open>\<open>re.match(r, s)\<close>\<close>

definition re_match :: "rx \<Rightarrow> string \<Rightarrow> rmatch_obj option" where
  "re_match r s = match_at r (length s) s"

text \<open>The match at the leftmost start at which \<open>r\<close> matches.\<close>

fun search_from :: "rx \<Rightarrow> nat \<Rightarrow> string \<Rightarrow> rmatch_obj option" where
  "search_from r n [] = match_at r n []"
| "search_from r n (c # cs) =
     (case match_at r n (c # cs) of
        Some m \<Rightarrow> Some m
      | None \<Rightarrow> search_from r n cs)"

text \<open>\<open>re.search(r, s)\<close>\<close>

definition re_search :: "rx \<Rightarrow> string \<Rightarrow> rmatch_obj option" where
  "re_search r s = search_from r (length s) s"

text \<open>
  \<open>re.sub(r, '', s)\<close>: every match, found from left to right, is removed (an empty match
  removes nothing).
\<close>

function sub_from :: "rx \<Rightarrow> nat \<Rightarrow> string \<Rightarrow> string" where
  "sub_from r n [] = []"
| "sub_from r n (c # cs) =
     (case rmatch r n (c # cs, []) of
        [] \<Rightarrow> c # sub_from r n cs
      | (s', g) # _ \<Rightarrow>
          if length s' < length (c # cs) then sub_from r n s' else c # sub_from r n cs)"
  by pat_completeness auto
termination
  by (relation "measure (\<lambda>(r, n, s). length s)") auto

definition re_sub_empty :: "rx \<Rightarrow> string \<Rightarrow> string" where
  "re_sub_empty r s = sub_from r (length s) s"

text \<open>Character classes.\<close>

definition cls_dot :: "char \<Rightarrow> bool" where
  "cls_dot c \<longleftrightarrow> c \<noteq> newline"

definition cls_alnum :: "char \<Rightarrow> bool" where
  "cls_alnum c \<longleftrightarrow>
     (65 \<le> code c \<and> code c \<le> 90) \<or> (97 \<le> code c \<and> code c \<le> 122) \<or> is_digit c"

text \<open>\<open>[A-Za-z0-9_-]\<close> and \<open>[A-Za-z0-9_]\<close>\<close>

definition cls_name :: "char \<Rightarrow> bool" where
  "cls_name c \<longleftrightarrow> cls_alnum c \<or> c = CHR ''_'' \<or> c = CHR ''-''"

definition cls_ident :: "char \<Rightarrow> bool" where
  "cls_ident c \<longleftrightarrow> cls_alnum c \<or> c = CHR ''_''"

text \<open>\<open>[=~<>!]\<close>\<close>

definition cls_operator :: "char \<Rightarrow> bool" where
  "cls_operator c \<longleftrightarrow> c \<in> set ''=~<>!''"

text \<open>\<open>[0-9_]\<close> and \<open>[0-9.]\<close>\<close>

definition cls_digit_underscore :: "char \<Rightarrow> bool" where
  "cls_digit_underscore c \<longleftrightarrow> is_digit c \<or> c = CHR ''_''"

definition cls_digit_dot :: "char \<Rightarrow> bool" where
  "cls_digit_dot c \<longleftrightarrow> is_digit c \<or> c = CHR ''.''"

section \<open>Files\<close>

text \<open>
  What a path names when a parser opens it: nothing, a file that cannot be read as
  text (\<open>open\<close> or the read raises the exception given: an \<open>OSError\<close>, or
  \<open>UnicodeDecodeError\<close> for bytes that are not UTF-8), or a file with its decoded
  content.
\<close>

datatype file_node = NoFile | Unreadable py_exception | Text string

type_synonym hash = "string \<times> string option \<Rightarrow> int"

section \<open>The requirement parsers\<close>

text \<open>
  \<open>Dependency(...)\<close> of \<open>generate_sbom.py\<close>, whose \<open>__post_init__\<close> strips a version
  that is not empty.
\<close>

definition Dependency_stripped :: "string \<Rightarrow> string option \<Rightarrow> string \<Rightarrow> string \<Rightarrow> dependency" where
  "Dependency_stripped name version source file_path =
     \<lparr>dep_name = name,
      dep_version = (case version of
                       None \<Rightarrow> None
                     | Some v \<Rightarrow> if v \<noteq> [] then Some (py_strip v) else Some v),
      dep_source = source, dep_file_path = file_path\<rparr>"

text \<open>\<open>^([A-Za-z0-9_-]+)(?:\[[^\]]*\])?([=~<>!]+)(.+)$\<close>\<close>

definition package_pattern :: rx where
  "package_pattern =
     Seqs [Bol, Grp 1 (Plus cls_name),
           Opt (Seqs [Lit ''['', Many (\<lambda>c. c \<noteq> CHR '']''), Lit '']'']),
           Grp 2 (Plus cls_operator), Grp 3 (Plus cls_dot), Eol]"

text \<open>\<open>\s*#.*$\<close>\<close>

definition trailing_comment_pattern :: rx where
  "trailing_comment_pattern = Seqs [Many py_isspace, Lit ''#'', Many cls_dot, Eol]"

text \<open>\<open>m.group(k).strip()\<close> and other uses of a group as a string.\<close>

definition group_str :: "rmatch_obj \<Rightarrow> nat \<Rightarrow> py_exception + string" where
  "group_str m k = (case group m k of None \<Rightarrow> Inl AttributeError | Some t \<Rightarrow> Inr t)"

text \<open>
  The body of the loop over the lines of a requirements file (\<open>generate_sbom.py\<close>):
  the dependency set after the line, or the exception raised. \<open>rel_path\<close> is the path
  of the file relative to the root directory, under which \<open>rglob\<close> found it. A group
  that took no part in the match would be \<open>None\<close>, on which \<open>strip\<close> raises.
\<close>

definition requirement_line :: "hash \<Rightarrow> string \<Rightarrow> dependency list \<Rightarrow> string \<Rightarrow> py_exception + dependency list" where
  "requirement_line h rel_path deps raw =
     (let line = py_strip raw in
      if line = [] \<or> startswith line ''#'' then Inr deps
      else
        (case re_match package_pattern line of
           Some m \<Rightarrow>
             (case (group_str m 1, group_str m 2, group_str m 3) of
                (Inr package_name, Inr operator, Inr g3) \<Rightarrow>
                  (let version_spec = py_strip g3;
                       version_spec =
                         (if version_spec \<noteq> []
                          then py_strip (re_sub_empty trailing_comment_pattern version_spec)
                          else version_spec)
                   in Inr (set_add h deps
                        (Dependency_stripped package_name
                           (if version_spec \<noteq> [] then Some (operator @ version_spec) else None)
                           ''requirements.txt'' rel_path)))
              | _ \<Rightarrow> Inl AttributeError)
         | None \<Rightarrow>
             (case py_split_char (CHR ''#'') line of
                [] \<Rightarrow> Inl IndexError
              | first # _ \<Rightarrow>
                  (let package_name = py_strip first in
                   if package_name \<noteq> []
                   then Inr (set_add h deps
                          (Dependency_stripped package_name None ''requirements.txt'' rel_path))
                   else Inr deps))))"

text \<open>
  \<open>parse_requirements_file\<close>: the whole body is in \<open>try ... except Exception\<close>, which
  prints a warning; the dependency set keeps what was added before the exception. The
  result is the set, and whether a warning was printed.
\<close>

fun requirement_lines_caught :: "hash \<Rightarrow> string \<Rightarrow> dependency list \<Rightarrow> string list \<Rightarrow> dependency list \<times> bool" where
  "requirement_lines_caught h rel_path deps [] = (deps, False)"
| "requirement_lines_caught h rel_path deps (raw # rest) =
     (case requirement_line h rel_path deps raw of
        Inl e \<Rightarrow> (deps, True)
      | Inr deps' \<Rightarrow> requirement_lines_caught h rel_path deps' rest)"

definition parse_requirements_file :: "hash \<Rightarrow> string \<Rightarrow> file_node \<Rightarrow> dependency list \<Rightarrow> dependency list \<times> bool" where
  "parse_requirements_file h rel_path file deps =
     (case file of
        NoFile \<Rightarrow> (deps, True)
      | Unreadable e \<Rightarrow> (deps, True)
      | Text content \<Rightarrow> requirement_lines_caught h rel_path deps (py_split_char newline content))"

text \<open>\<open>parse_py_deps\<close> of \<open>sbomGenerator.py\<close>: the loop over the lines of \<open>pyDep.txt\<close>.\<close>

definition py_deps_line :: "hash \<Rightarrow> dependency list \<Rightarrow> string \<Rightarrow> py_exception + dependency list" where
  "py_deps_line h deps raw =
     (let line = py_strip raw in
      if line = [] then Inr deps
      else if py_contains ''=='' line then
        (case py_split1 line ''=='' of
           [name, version] \<Rightarrow>
             Inr (set_add h deps
                    \<lparr>dep_name = py_strip name, dep_version = Some (py_strip version),
                     dep_source = ''pyDep.txt'', dep_file_path = ''''\<rparr>)
         | _ \<Rightarrow> Inl ValueError)
      else Inr (set_add h deps
                  \<lparr>dep_name = py_strip line, dep_version = None,
                   dep_source = ''pyDep.txt'', dep_file_path = ''''\<rparr>))"

fun py_deps_lines :: "hash \<Rightarrow> dependency list \<Rightarrow> string list \<Rightarrow> py_exception + dependency list" where
  "py_deps_lines h deps [] = Inr deps"
| "py_deps_lines h deps (raw # rest) =
     (case py_deps_line h deps raw of
        Inl e \<Rightarrow> Inl e
      | Inr deps' \<Rightarrow> py_deps_lines h deps' rest)"

definition parse_py_deps :: "hash \<Rightarrow> file_node \<Rightarrow> dependency list \<Rightarrow> py_exception + dependency list" where
  "parse_py_deps h py_file deps =
     (case py_file of
        NoFile \<Rightarrow> Inr deps
      | Unreadable e \<Rightarrow> Inl e
      | Text content \<Rightarrow> py_deps_lines h deps (readlines content))"

text \<open>The input of the example: two requirements, a comment line and blank lines.\<close>

definition example_requirements :: string where
  "example_requirements =
     ''numpy==1.26.4'' @ [newline] @ ''requests>=2.0'' @ [newline] @ ''# comment'' @ [newline, newline]"

definition example_hash :: hash where
  "example_hash = (\<lambda>(n, v). int (length n))"

section \<open>The build-manifest parser\<close>

text \<open>\<open>[0-9A-Za-z\._\-]\<close>\<close>

definition cls_version :: "char \<Rightarrow> bool" where
  "cls_version c \<longleftrightarrow> cls_alnum c \<or> c = CHR ''.'' \<or> c = CHR ''_'' \<or> c = CHR ''-''"

text \<open>The table \<open>deps\<close> of \<open>parse_cmakelists\<close> (\<open>AnalysisBase/sbomGenerator.py\<close>).\<close>

definition boost_regex :: rx where
  "boost_regex = Seqs [Lit ''/sources/boost_'', Grp 1 (Plus cls_digit_underscore), Lit ''.tar.gz;'']"

definition cmake_deps :: "(string \<times> string \<times> rx) list" where
  "cmake_deps =
     [(''Boost'', ''boost_'', boost_regex),
      (''Eigen'', ''eigen-'', Seqs [Lit ''/sources/eigen-'', Grp 1 (Plus cls_digit_dot), Lit ''.tar.gz;'']),
      (''Root'', ''root_v'', Seqs [Lit ''/ROOT/root_v'', Grp 1 (Plus cls_digit_dot), Lit ''.source.tar.gz;'']),
      (''XRootD'', ''xrootd-'', Seqs [Lit ''/sources/xrootd-'', Grp 1 (Plus cls_digit_dot), Lit ''.tar.gz;'']),
      (''dcap'', ''dcap-'', Seqs [Lit ''/sources/dcap-'', Grp 1 (Plus cls_digit_dot), Lit ''-'']),
      (''Davix'', ''davix-'', Seqs [Lit ''/sources/davix-'', Grp 1 (Plus cls_digit_dot), Lit ''.tar.gz;'']),
      (''TBB'', ''oneTBB-'', Seqs [Lit ''/sources/oneTBB-'', Grp 1 (Plus cls_digit_dot), Lit ''.tar.gz;'']),
      (''nlohmann_json'', ''json-'', Seqs [Lit ''/sources/json-'', Grp 1 (Plus cls_digit_dot), Lit ''.tar.gz;''])]"

text \<open>
  The loop over the lines of one \<open>CMakeLists.txt\<close>: the line written to \<open>cppDep.txt\<close>
  at the first line that matches, if any.
\<close>

fun scan_cmake_lines :: "string \<Rightarrow> rx \<Rightarrow> string list \<Rightarrow> py_exception + string option" where
  "scan_cmake_lines dep regex [] = Inr None"
| "scan_cmake_lines dep regex (line # rest) =
     (case re_search regex line of
        None \<Rightarrow> scan_cmake_lines dep regex rest
      | Some m \<Rightarrow>
          if dep = ''Boost'' then
            (case group m 1 of
               None \<Rightarrow> Inl AttributeError
             | Some version \<Rightarrow>
                 Inr (Some (dep @ '': '' @ py_replace_char (CHR ''_'') (CHR ''.'') version @ [newline])))
          else Inr (Some (dep @ '': '' @ (case group m 1 of None \<Rightarrow> ''None'' | Some version \<Rightarrow> version)
                          @ [newline])))"

text \<open>
  \<open>parse_cmakelists\<close>: \<open>files\<close> gives, for a package name, its \<open>CMakeLists.txt\<close> under
  the working directory; the result is the text appended to \<open>cppDep.txt\<close>.
\<close>

fun cmakelists_loop :: "(string \<Rightarrow> file_node) \<Rightarrow> (string \<times> string \<times> rx) list \<Rightarrow> string \<Rightarrow> py_exception + string" where
  "cmakelists_loop files [] out = Inr out"
| "cmakelists_loop files ((dep, prefix, regex) # rest) out =
     (case files dep of
        NoFile \<Rightarrow> cmakelists_loop files rest out
      | Unreadable e \<Rightarrow> Inl e
      | Text content \<Rightarrow>
          (case scan_cmake_lines dep regex (readlines content) of
             Inl e \<Rightarrow> Inl e
           | Inr None \<Rightarrow> cmakelists_loop files rest out
           | Inr (Some written) \<Rightarrow> cmakelists_loop files rest (out @ written)))"

definition parse_cmakelists :: "(string \<Rightarrow> file_node) \<Rightarrow> py_exception + string" where
  "parse_cmakelists files = cmakelists_loop files cmake_deps []"

text \<open>
  \<open>parse_cmakelists\<close> of \<open>backend/AnalysisBase/sbomGenerator.py\<close>, the part that finds
  the version of one package in the content of its \<open>CMakeLists.txt\<close>: the patterns of
  the package first, then the generic ones.
\<close>

definition boost_patterns :: "rx list" where
  "boost_patterns = [Seqs [Lit ''boost_'', Grp 1 (Plus cls_digit_underscore), Lit ''.tar.gz'']]"

definition generic_patterns :: "rx list" where
  "generic_patterns =
     [Seqs [Lit ''/sources/'', Plus (\<lambda>c. c \<noteq> CHR ''/''), Lit ''-'', Grp 1 (Plus cls_version), Lit ''.tar.gz''],
      Seqs [Cls (\<lambda>c. c \<in> set ''-_/''), Opt (Lit ''v''),
            Grp 1 (Seqs [Plus is_digit, Lit ''.'', Plus is_digit, Lit ''.'', Plus cls_version]),
            Lit ''.tar.gz''],
      Seqs [Cls (\<lambda>c. c \<in> set ''-_/''), Opt (Lit ''v''),
            Grp 1 (Seqs [Plus is_digit, Lit ''.'', Plus cls_version]), Lit ''.tar.gz''],
      Seqs [Grp 1 (Seqs [Cls is_digit, Cls is_digit, Cls is_digit, Cls is_digit, Cls is_digit,
                         Cls is_digit, Many is_digit]), Lit ''.tar.gz'']]"

text \<open>\<open>for rx in regex_list: m = re.search(rx, content); if m: found_version = m.group(1); break\<close>\<close>

fun first_found :: "rx list \<Rightarrow> string \<Rightarrow> string option \<Rightarrow> string option" where
  "first_found [] content found_version = found_version"
| "first_found (rx # rest) content found_version =
     (case re_search rx content of
        Some m \<Rightarrow> group m 1
      | None \<Rightarrow> first_found rest content found_version)"

text \<open>Truth of an optional string: neither \<open>None\<close> nor empty.\<close>

definition truthy :: "string option \<Rightarrow> bool" where
  "truthy v \<longleftrightarrow> v \<noteq> None \<and> v \<noteq> Some []"

text \<open>The entry \<open>dep: version\<close> found for a package, if any.\<close>

definition find_entry :: "string \<Rightarrow> string \<Rightarrow> rx list \<Rightarrow> string \<Rightarrow> string option" where
  "find_entry dep dep_key regex_list content =
     (let found_version = (if content \<noteq> [] then first_found regex_list content None else None);
          found_version = (if \<not> truthy found_version \<and> content \<noteq> []
                           then first_found generic_patterns content found_version
                           else found_version)
      in case found_version of
           None \<Rightarrow> None
         | Some v \<Rightarrow>
             if v = [] then None
             else Some (dep @ '': '' @
                        (if dep_key = ''Boost'' then py_replace_char (CHR ''_'') (CHR ''.'') v else v)))"

text \<open>The tarball of the example.\<close>

definition boost_tarball :: string where
  "boost_tarball = ''/sources/boost_1_82_0.tar.gz;''"

text \<open>No match of \<open>r\<close> starts at one of the first \<open>k\<close> positions of \<open>s\<close>.\<close>

definition no_match_before :: "rx \<Rightarrow> nat \<Rightarrow> string \<Rightarrow> bool" where
  "no_match_before r k s \<longleftrightarrow> list_all (\<lambda>i. rmatch r (length s) (drop i s, []) = []) [0..<k]"

section \<open>The build-log parser\<close>

text \<open>\<open>xs[i]\<close>\<close>

definition nth_checked :: "'a list \<Rightarrow> nat \<Rightarrow> py_exception + 'a" where
  "nth_checked xs i = (if i < length xs then Inr (xs ! i) else Inl IndexError)"

definition c_compiler_pattern :: rx where
  "c_compiler_pattern = Seqs [Lit ''The C compiler identification is '', Grp 1 (Plus cls_dot)]"

definition cxx_compiler_pattern :: rx where
  "cxx_compiler_pattern = Seqs [Lit ''The CXX compiler identification is '', Grp 1 (Plus cls_dot)]"

definition platform_name_pattern :: rx where
  "platform_name_pattern = Seqs [Lit ''Using platform name: '', Grp 1 (Plus cls_dot)]"

text \<open>\<open>LCG release "LCG_([^"]+)" for platform: (.+)\<close>\<close>

definition lcg_release_pattern :: rx where
  "lcg_release_pattern =
     Seqs [Lit (''LCG release '' @ [dquote] @ ''LCG_''), Grp 1 (Plus (\<lambda>c. c \<noteq> dquote)),
           Lit ([dquote] @ '' for platform: ''), Grp 2 (Plus cls_dot)]"

text \<open>\<open>--\s+\+\s+External/(.+)\<close>\<close>

definition external_package_pattern :: rx where
  "external_package_pattern =
     Seqs [Lit ''--'', Plus py_isspace, Lit ''+'', Plus py_isspace, Lit ''External/'', Grp 1 (Plus cls_dot)]"

text \<open>
  A step inside \<open>try\<close>: the exception raised so far, if any, and the result as it is
  at that moment. After an exception the remaining steps do nothing.
\<close>

type_synonym 'r attempt = "py_exception option \<times> 'r"

text \<open>
  \<open>if len(lines) > i: l = lines[i].strip(); m = re.search(pattern, l); if m: store(m.group(1))\<close>
\<close>

definition line_field :: "string list \<Rightarrow> nat \<Rightarrow> rx \<Rightarrow> (string option \<Rightarrow> 'r \<Rightarrow> 'r) \<Rightarrow> 'r attempt \<Rightarrow> 'r attempt" where
  "line_field lines i pattern store st =
     (case st of
        (Some e, result) \<Rightarrow> st
      | (None, result) \<Rightarrow>
          if length lines > i then
            (case nth_checked lines i of
               Inl e \<Rightarrow> (Some e, result)
             | Inr l \<Rightarrow>
                 (case re_search pattern (py_strip l) of
                    Some m \<Rightarrow> (None, store (group m 1) result)
                  | None \<Rightarrow> (None, result)))
          else (None, result))"

text \<open>
  \<open>for line in lines: m = re.search(pattern, line.strip()); if m: store(m); break\<close>
\<close>

fun first_line_match :: "rx \<Rightarrow> (rmatch_obj \<Rightarrow> 'r \<Rightarrow> 'r) \<Rightarrow> string list \<Rightarrow> 'r \<Rightarrow> 'r" where
  "first_line_match pattern store [] result = result"
| "first_line_match pattern store (line # rest) result =
     (case re_search pattern (py_strip line) of
        Some m \<Rightarrow> store m result
      | None \<Rightarrow> first_line_match pattern store rest result)"

text \<open>The dict \<open>result\<close> of \<open>parse_build_info\<close> (\<open>backend/Athena/sbomGenerator.py\<close>).\<close>

record build_result =
  br_lcg_version :: "string option"
  br_platform :: "string option"
  br_packages :: "string list"
  br_C_Compiler :: "string option"
  br_CXX_Compiler :: "string option"
  br_Platform :: "string option"

definition empty_build_result :: build_result where
  "empty_build_result =
     \<lparr>br_lcg_version = None, br_platform = None, br_packages = [],
      br_C_Compiler = None, br_CXX_Compiler = None, br_Platform = None\<rparr>"

text \<open>The loop over the package filtering rules.\<close>

fun packages_loop :: "string list \<Rightarrow> bool \<Rightarrow> build_result \<Rightarrow> build_result attempt" where
  "packages_loop [] in_package_section result = (None, result)"
| "packages_loop (raw # rest) in_package_section result =
     (let line = py_strip raw in
      if py_contains ''Package filtering rules read:'' line then packages_loop rest True result
      else if in_package_section then
        (if startswith line ''-- Configuring'' \<or> (line = [] \<and> br_packages result \<noteq> [])
         then (None, result)
         else
           (case re_search external_package_pattern line of
              Some pkg_match \<Rightarrow>
                (case group pkg_match 1 of
                   None \<Rightarrow> (Some AttributeError, result)
                 | Some g \<Rightarrow>
                     packages_loop rest True
                       (result\<lparr>br_packages := br_packages result @ [py_strip g]\<rparr>))
            | None \<Rightarrow>
                if startswith line ''--   -'' then (None, result)
                else packages_loop rest True result))
      else packages_loop rest False result)"

definition parse_build_info_body :: "string \<Rightarrow> build_result \<Rightarrow> build_result attempt" where
  "parse_build_info_body content result =
     (let lines = readlines content;
          st = line_field lines 0 c_compiler_pattern (\<lambda>v r. r\<lparr>br_C_Compiler := v\<rparr>) (None, result);
          st = line_field lines 1 cxx_compiler_pattern (\<lambda>v r. r\<lparr>br_CXX_Compiler := v\<rparr>) st
      in case st of
           (Some e, result) \<Rightarrow> st
         | (None, result) \<Rightarrow>
             (let result = first_line_match lcg_release_pattern
                             (\<lambda>m r. r\<lparr>br_lcg_version := group m 1, br_platform := group m 2\<rparr>)
                             lines result;
                  result = first_line_match platform_name_pattern
                             (\<lambda>m r. r\<lparr>br_Platform := group m 1\<rparr>) lines result
              in packages_loop lines False result))"

text \<open>
  \<open>parse_build_info\<close>: an absent file gives the initial result; an exception inside
  \<open>try\<close> is caught and the result is returned as far as it was filled.
\<close>

definition parse_build_info :: "file_node \<Rightarrow> build_result" where
  "parse_build_info build_txt =
     (case build_txt of
        NoFile \<Rightarrow> empty_build_result
      | Unreadable e \<Rightarrow> empty_build_result
      | Text content \<Rightarrow> snd (parse_build_info_body content empty_build_result))"

section \<open>The side-file parsers\<close>

text \<open>\<open>^([A-Za-z0-9_]+)\s*:\s*(.*)$\<close>\<close>

definition cpp_dep_pattern :: rx where
  "cpp_dep_pattern =
     Seqs [Bol, Grp 1 (Plus cls_ident), Many py_isspace, Lit '':'', Many py_isspace,
           Grp 2 (Many cls_dot), Eol]"

text \<open>\<open>version_raw.split()[0] if version_raw else "undefined"\<close>\<close>

definition first_word_or_undefined :: "string \<Rightarrow> py_exception + string" where
  "first_word_or_undefined version_raw =
     (if version_raw \<noteq> [] then
        (case py_split version_raw of [] \<Rightarrow> Inl IndexError | w # _ \<Rightarrow> Inr w)
      else Inr ''undefined'')"

text \<open>
  The loop body of \<open>parse_cpp_deps\<close> (\<open>sbomGenerator.py\<close>). A group that took no part
  in the match would be \<open>None\<close>: as the version it makes \<open>strip\<close> raise, as the name it
  is no name (the last branch).
\<close>

definition cpp_deps_line :: "hash \<Rightarrow> string \<Rightarrow> dependency list \<Rightarrow> string \<Rightarrow> py_exception + dependency list" where
  "cpp_deps_line h source deps raw =
     (let line = py_strip raw in
      case re_match cpp_dep_pattern line of
        None \<Rightarrow> Inr deps
      | Some m \<Rightarrow>
          (case group m 2 of
             None \<Rightarrow> Inl AttributeError
           | Some version_raw \<Rightarrow>
               (case first_word_or_undefined (py_strip version_raw) of
                  Inl e \<Rightarrow> Inl e
                | Inr version \<Rightarrow>
                    (case group m 1 of
                       Some name \<Rightarrow>
                         Inr (set_add h deps
                                \<lparr>dep_name = name, dep_version = Some version,
                                 dep_source = source, dep_file_path = ''''\<rparr>)
                     | None \<Rightarrow> Inl TypeError))))"

text \<open>
  The loop body of \<open>parse_py_deps\<close> of \<open>AnalysisBase/sbomGenerator.py\<close>: the same, but
  \<open>version_raw\<close> is not stripped.
\<close>

definition colon_deps_line :: "hash \<Rightarrow> string \<Rightarrow> dependency list \<Rightarrow> string \<Rightarrow> py_exception + dependency list" where
  "colon_deps_line h source deps raw =
     (let line = py_strip raw in
      case re_match cpp_dep_pattern line of
        None \<Rightarrow> Inr deps
      | Some m \<Rightarrow>
          (case group m 2 of
             None \<Rightarrow> Inl AttributeError
           | Some version_raw \<Rightarrow>
               (case first_word_or_undefined version_raw of
                  Inl e \<Rightarrow> Inl e
                | Inr version \<Rightarrow>
                    (case group m 1 of
                       Some name \<Rightarrow>
                         Inr (set_add h deps
                                \<lparr>dep_name = name, dep_version = Some version,
                                 dep_source = source, dep_file_path = ''''\<rparr>)
                     | None \<Rightarrow> Inl TypeError))))"

text \<open>A loop over the lines of a file that stops at the first exception.\<close>

fun lines_loop :: "(dependency list \<Rightarrow> string \<Rightarrow> py_exception + dependency list) \<Rightarrow> dependency list \<Rightarrow> string list \<Rightarrow> py_exception + dependency list" where
  "lines_loop body deps [] = Inr deps"
| "lines_loop body deps (raw # rest) =
     (case body deps raw of
        Inl e \<Rightarrow> Inl e
      | Inr deps' \<Rightarrow> lines_loop body deps' rest)"

definition parse_cpp_deps :: "hash \<Rightarrow> file_node \<Rightarrow> dependency list \<Rightarrow> py_exception + dependency list" where
  "parse_cpp_deps h cpp_file deps =
     (case cpp_file of
        NoFile \<Rightarrow> Inr deps
      | Unreadable e \<Rightarrow> Inl e
      | Text content \<Rightarrow> lines_loop (cpp_deps_line h ''cppDep.txt'') deps (readlines content))"

definition parse_py_deps_colon :: "hash \<Rightarrow> file_node \<Rightarrow> dependency list \<Rightarrow> py_exception + dependency list" where
  "parse_py_deps_colon h py_file deps =
     (case py_file of
        NoFile \<Rightarrow> Inr deps
      | Unreadable e \<Rightarrow> Inl e
      | Text content \<Rightarrow> lines_loop (colon_deps_line h ''pyDep.txt'') deps (readlines content))"

text \<open>The groups that every match of a pattern captures.\<close>

fun sets_group :: "nat \<Rightarrow> rx \<Rightarrow> bool" where
  "sets_group k (Grp j r) \<longleftrightarrow> j = k \<or> sets_group k r"
| "sets_group k (Seq r1 r2) \<longleftrightarrow> sets_group k r1 \<or> sets_group k r2"
| "sets_group k (Alt r1 r2) \<longleftrightarrow> sets_group k r1 \<and> sets_group k r2"
| "sets_group k _ \<longleftrightarrow> False"

section \<open>The version gate\<close>

text \<open>
  \<open>parse_build_info_from_file\<close> (\<open>version_sbom.py\<close>): the dict \<open>compiler_info\<close>.
\<close>

definition parse_build_info_from_file_body :: "string \<Rightarrow> string option dict attempt" where
  "parse_build_info_from_file_body content =
     (let lines = readlines content;
          st = line_field lines 0 c_compiler_pattern (\<lambda>v d. dict_set d ''C Compiler'' v) (None, []);
          st = line_field lines 1 cxx_compiler_pattern (\<lambda>v d. dict_set d ''CXX Compiler'' v) st;
          st = line_field lines 24 platform_name_pattern (\<lambda>v d. dict_set d ''Platform'' v) st
      in case st of
           (Some e, compiler_info) \<Rightarrow> st
         | (None, compiler_info) \<Rightarrow>
             (None, first_line_match lcg_release_pattern
                      (\<lambda>m d. dict_set (dict_set d ''lcg_version'' (group m 1)) ''platform'' (group m 2))
                      lines compiler_info))"

definition parse_build_info_from_file :: "file_node \<Rightarrow> string option dict" where
  "parse_build_info_from_file build_txt =
     (case build_txt of
        NoFile \<Rightarrow> []
      | Unreadable e \<Rightarrow> []
      | Text content \<Rightarrow> snd (parse_build_info_from_file_body content))"

text \<open>\<open>\|\s*LABEL\s*\|\s*(.+?)\s*\|\<close>\<close>

definition md_row_pattern :: "string \<Rightarrow> rx" where
  "md_row_pattern label =
     Seqs [Lit ''|'', Many py_isspace, Lit label, Many py_isspace, Lit ''|'', Many py_isspace,
           Grp 1 (Seq (Cls cls_dot) (Few cls_dot)), Many py_isspace, Lit ''|'']"

text \<open>\<open>m = re.search(pattern, content); if m: build_info[key] = m.group(1).strip()\<close>\<close>

definition md_field :: "string \<Rightarrow> string \<Rightarrow> string \<Rightarrow> string option dict attempt \<Rightarrow> string option dict attempt" where
  "md_field label key content st =
     (case st of
        (Some e, build_info) \<Rightarrow> st
      | (None, build_info) \<Rightarrow>
          (case re_search (md_row_pattern label) content of
             None \<Rightarrow> (None, build_info)
           | Some m \<Rightarrow>
               (case group m 1 of
                  None \<Rightarrow> (Some AttributeError, build_info)
                | Some g \<Rightarrow> (None, dict_set build_info key (Some (py_strip g))))))"

definition parse_build_info_from_markdown :: "file_node \<Rightarrow> string option dict" where
  "parse_build_info_from_markdown md_file =
     (case md_file of
        NoFile \<Rightarrow> []
      | Unreadable e \<Rightarrow> []
      | Text content \<Rightarrow>
          snd (md_field ''LCG Version'' ''lcg_version'' content
                (md_field ''Platform'' ''Platform'' content
                  (md_field ''CXX Compiler'' ''CXX Compiler'' content
                    (md_field ''C Compiler'' ''C Compiler'' content (None, []))))))"

text \<open>A version directory, an entry of \<open>SBOMs\<close>, and the working directory of a run.\<close>

record version_dir =
  vd_json :: "sbom option"
  vd_md :: file_node

datatype dir_entry = Entry_file | Entry_dir version_dir

record workdir =
  wd_json :: "sbom option"
  wd_md :: file_node
  wd_build_txt :: file_node
  wd_sboms :: "(string \<times> dir_entry) list option"

datatype outcome = Exit_error | Duplicate int | Saved int

text \<open>The loop of \<open>main\<close> that finds the most recent version.\<close>

fun most_recent :: "(string \<times> dir_entry) list \<Rightarrow> int \<Rightarrow> version_dir option \<Rightarrow> int \<times> version_dir option" where
  "most_recent [] max_version most_recent_dir = (max_version, most_recent_dir)"
| "most_recent ((name, Entry_file) # rest) max_version most_recent_dir =
     most_recent rest max_version most_recent_dir"
| "most_recent ((name, Entry_dir item) # rest) max_version most_recent_dir =
     (if startswith name ''v'' then
        (case python_int (drop 1 name) of
           Some version_num \<Rightarrow>
             if version_num > max_version then most_recent rest version_num (Some item)
             else most_recent rest max_version most_recent_dir
         | None \<Rightarrow> most_recent rest max_version most_recent_dir)
      else most_recent rest max_version most_recent_dir)"

text \<open>
  \<open>main\<close> of \<open>version_sbom.py\<close>. The candidate files are \<open>athena-sbom.json\<close>, as
  \<open>json.load\<close> reads it, and \<open>athena-sbom.md\<close>.
\<close>

definition main :: "workdir \<Rightarrow> py_exception + outcome \<times> workdir" where
  "main wd =
     (case wd_json wd of
        None \<Rightarrow> Inr (Exit_error, wd)
      | Some new_sbom_data \<Rightarrow>
          (let new_build_info = parse_build_info_from_file (wd_build_txt wd);
               new_signature = get_sbom_signature new_sbom_data (Some new_build_info);
               entries = (case wd_sboms wd of None \<Rightarrow> [] | Some es \<Rightarrow> es);
               (max_version, most_recent_dir) = most_recent entries 0 None;
               is_duplicate =
                 (case most_recent_dir of
                    None \<Rightarrow> False
                  | Some recent \<Rightarrow>
                      (case vd_json recent of
                         None \<Rightarrow> False
                       | Some recent_sbom_data \<Rightarrow>
                           get_sbom_signature recent_sbom_data
                             (Some (parse_build_info_from_markdown (vd_md recent)))
                           = new_signature))
           in if is_duplicate then
                Inr (Duplicate max_version,
                     wd\<lparr>wd_json := None, wd_md := NoFile, wd_sboms := Some entries\<rparr>)
              else
                (let next_version = max_version + 1;
                     name = ''v'' @ str_int next_version
                 in case map_of entries name of
                      Some Entry_file \<Rightarrow> Inl FileExistsError
                    | Some (Entry_dir old) \<Rightarrow>
                        Inr (Saved next_version,
                             wd\<lparr>wd_json := None, wd_md := NoFile,
                                wd_sboms := Some (AList.update name
                                  (Entry_dir \<lparr>vd_json = Some new_sbom_data,
                                              vd_md = (if wd_md wd = NoFile then vd_md old else wd_md wd)\<rparr>)
                                  entries)\<rparr>)
                    | None \<Rightarrow>
                        Inr (Saved next_version,
                             wd\<lparr>wd_json := None, wd_md := NoFile,
                                wd_sboms := Some (entries @
                                  [(name, Entry_dir \<lparr>vd_json = Some new_sbom_data, vd_md = wd_md wd\<rparr>)])\<rparr>))))"

section \<open>The generation that precedes the gate\<close>

text \<open>\<open>sep.join(xs)\<close>\<close>

fun py_join :: "string \<Rightarrow> string list \<Rightarrow> string" where
  "py_join sep [] = []"
| "py_join sep [x] = x"
| "py_join sep (x # y # ys) = x @ sep @ py_join sep (y # ys)"

text \<open>An optional string inside an f-string.\<close>

definition fmt :: "string option \<Rightarrow> string" where
  "fmt v = (case v of None \<Rightarrow> ''None'' | Some t \<Rightarrow> t)"

text \<open>\<open>dep.version or 'undefined'\<close>\<close>

definition version_or_undefined :: "dependency \<Rightarrow> string" where
  "version_or_undefined dep = (if truthy (dep_version dep) then the (dep_version dep) else ''undefined'')"

text \<open>
  \<open>generate_markdown_report\<close> (\<open>backend/Athena/sbomGenerator.py\<close>); \<open>now\<close> is the
  formatted time. The dict of \<open>parse_build_info\<close> has all its keys and is not empty.
\<close>

definition generate_markdown_report :: "string \<Rightarrow> dependency list \<Rightarrow> string \<Rightarrow> build_result option \<Rightarrow> string" where
  "generate_markdown_report now dependencies athena_version build_info =
     (let md = [''# Athena SBOM Report'' @ [newline],
                ''**Generated on:** '' @ now,
                ''**Total dependencies:** '' @ str_nat (length dependencies) @ [newline]];
          md = (case build_info of
                  None \<Rightarrow> md
                | Some b \<Rightarrow>
                    md @ [''## Build Information'' @ [newline],
                          ''| Component | Version/Specification |'',
                          ''|-----------|-----------------------|'',
                          ''| C Compiler | '' @ fmt (br_C_Compiler b) @ '' |'',
                          ''| CXX Compiler | '' @ fmt (br_CXX_Compiler b) @ '' |'',
                          ''| Platform | '' @ fmt (br_Platform b) @ '' |'',
                          ''| LCG Version | '' @ fmt (br_lcg_version b) @ '' |'',
                          '''']);
          md = md @ [''## Source Versions'' @ [newline],
                     ''| Source | Version |'',
                     ''|--------|---------|'',
                     ''| Athena | '' @ athena_version @ '' |'' @ [newline]];
          md = (if dependencies \<noteq> [] then
                  md @ [''## All Dependencies'' @ [newline],
                        ''| Package | Version |'',
                        ''|---------|---------|'']
                     @ map (\<lambda>dep. ''| '' @ dep_name dep @ '' | '' @ version_or_undefined dep @ '' |'')
                         (sort_key (\<lambda>x. py_lower (dep_name x)) dependencies)
                     @ ['''']
                else md)
      in py_join [newline] md)"

text \<open>
  \<open>generate_cyclonedx_sbom\<close>: the document that the CycloneDX encoder writes for the
  \<open>Bom\<close> built here, as \<open>json.load\<close> reads it back. The serial number, the
  timestamp and the order of the components are the encoder's: it keeps the components
  as a sorted set (here by name and version, case-sensitively) and writes no component
  list when there is none.
\<close>

definition generate_cyclonedx_sbom :: "string \<Rightarrow> string \<Rightarrow> dependency list \<Rightarrow> string \<Rightarrow> sbom" where
  "generate_cyclonedx_sbom timestamp serial dependencies athena_version =
     \<lparr>sbom_schema = Some ''http://cyclonedx.org/schema/bom-1.4.schema.json'',
      sbom_bomFormat = Some ''CycloneDX'', sbom_specVersion = Some ''1.4'',
      sbom_serialNumber = Some serial, sbom_version = Some 1,
      sbom_metadata = Some \<lparr>meta_timestamp = Some timestamp,
                             meta_properties = Some [\<lparr>prop_name = Some ''Athena'', prop_value = Some athena_version\<rparr>]\<rparr>,
      sbom_components =
        (if dependencies = [] then None
         else Some (sort_key (\<lambda>c. (comp_name c, comp_version c))
                      (remdups (map (\<lambda>dep. \<lparr>comp_type = Some ''library'',
                                              comp_name = Some (dep_name dep),
                                              comp_version = Some (version_or_undefined dep),
                                              comp_properties = None\<rparr>)
                                  (sort_key (\<lambda>x. py_lower (dep_name x)) dependencies)))))\<rparr>"

text \<open>
  \<open>generate\<close>: \<open>dependencies\<close> is the set gathered from the package index, the external
  sources and \<open>cppDep.txt\<close>. Without a release line in the build log nothing is written.
\<close>

definition generate :: "string \<Rightarrow> string \<Rightarrow> dependency list \<Rightarrow> workdir \<Rightarrow> workdir" where
  "generate now serial dependencies wd =
     (let build_info = parse_build_info (wd_build_txt wd) in
      if \<not> truthy (br_lcg_version build_info) \<or> \<not> truthy (br_platform build_info) then wd
      else wd\<lparr>wd_json := Some (generate_cyclonedx_sbom now serial dependencies ''24.0''),
              wd_md := Text (generate_markdown_report now dependencies ''24.0'' (Some build_info))\<rparr>)"

text \<open>One full generation: the generator, then the gate.\<close>

definition full_generation :: "string \<Rightarrow> string \<Rightarrow> dependency list \<Rightarrow> workdir \<Rightarrow> py_exception + outcome \<times> workdir" where
  "full_generation now serial dependencies wd = main (generate now serial dependencies wd)"

text \<open>The inputs of the example: a build log, one dependency, an empty working directory.\<close>

definition example_build_log :: string where
  "example_build_log =
     ''-- The C compiler identification is GNU 13.1.0'' @ [newline]
     @ ''-- The CXX compiler identification is GNU 13.1.0'' @ [newline]
     @ ''-- LCG release '' @ [dquote] @ ''LCG_106b_ATLAS_1'' @ [dquote]
     @ '' for platform: x86_64-el9-gcc13-opt'' @ [newline]"

definition example_dependencies :: "dependency list" where
  "example_dependencies =
     [\<lparr>dep_name = ''ROOT'', dep_version = Some ''6.28.12'', dep_source = ''LCG Website'', dep_file_path = ''''\<rparr>]"

definition example_workdir :: workdir where
  "example_workdir =
     \<lparr>wd_json = None, wd_md = NoFile, wd_build_txt = Text example_build_log, wd_sboms = None\<rparr>"

text \<open>What the build-log parser finds in the example, and the report written from it.\<close>

definition example_build_result :: build_result where
  "example_build_result =
     \<lparr>br_lcg_version = Some ''106b_ATLAS_1'', br_platform = Some ''x86_64-el9-gcc13-opt'',
      br_packages = [], br_C_Compiler = Some ''GNU 13.1.0'', br_CXX_Compiler = Some ''GNU 13.1.0'',
      br_Platform = None\<rparr>"

definition example_report :: string where
  "example_report = ''# Athena SBOM Report\<newline>\<newline>**Generated on:** 2025-01-01 00:00:00\<newline>**Total dependencies:** 1\<newline>\<newline>## Build Information\<newline>\<newline>| Component | Version/Specification |\<newline>|-----------|-----------------------|\<newline>| C Compiler | GNU 13.1.0 |\<newline>| CXX Compiler | GNU 13.1.0 |\<newline>| Platform | None |\<newline>| LCG Version | 106b_ATLAS_1 |\<newline>\<newline>## Source Versions\<newline>\<newline>| Source | Version |\<newline>|--------|---------|\<newline>| Athena | 24.0 |\<newline>\<newline>## All Dependencies\<newline>\<newline>| Package | Version |\<newline>|---------|---------|\<newline>| ROOT | 6.28.12 |\<newline>''"

definition example_candidate :: sbom where
  "example_candidate =
     generate_cyclonedx_sbom ''2025-01-01 00:00:00'' ''urn:uuid:1'' example_dependencies ''24.0''"

text \<open>The working directory with the first version stored.\<close>

definition example_stored_once :: workdir where
  "example_stored_once =
     \<lparr>wd_json = None, wd_md = NoFile, wd_build_txt = Text example_build_log,
      wd_sboms = Some [(''v1'', Entry_dir \<lparr>vd_json = Some example_candidate, vd_md = Text example_report\<rparr>)]\<rparr>"

section \<open>The remote package index\<close>

text \<open>
  What \<open>urllib.request.urlopen(url, timeout=30)\<close> followed by
  \<open>response.read().decode('utf-8')\<close> does. The request line holds the URL up to its
  fragment; \<open>http.client\<close> refuses it with \<open>InvalidURL\<close> when it holds a character
  up to the space or the character 127, and cannot encode a character above 127. Only
  then the network is asked; \<open>network\<close> is what happens then: an exception
  (\<open>URLError\<close> when the connection or the status fails) or the decoded page.
\<close>

definition url_disallowed :: "char \<Rightarrow> bool" where
  "url_disallowed c \<longleftrightarrow> code c \<le> 32 \<or> code c = 127"

definition urlopen_read :: "py_exception + string \<Rightarrow> string \<Rightarrow> py_exception + string" where
  "urlopen_read network url =
     (let selector = takeWhile (\<lambda>c. c \<noteq> CHR ''#'') url in
      if list_ex url_disallowed selector then Inl InvalidURL
      else if list_ex (\<lambda>c. 128 \<le> code c) selector then Inl UnicodeEncodeError
      else network)"

text \<open>
  \<open>fetch_and_parse_lcg_packages\<close>, up to \<open>if not html_content: return {}\<close>: the page
  that is parsed afterwards, \<open>None\<close> when the function returns the empty dict, or the
  exception that leaves the function. Only \<open>URLError\<close> is caught; then the fallback
  file, if one is configured and can be read, gives the page.
\<close>

definition fetch_lcg_page :: "py_exception + string \<Rightarrow> file_node option \<Rightarrow> string \<Rightarrow> string \<Rightarrow> py_exception + string option" where
  "fetch_lcg_page network fallback lcg_version platform =
     (let url = ''https://lcginfo.cern.ch/release_packages/'' @ lcg_version @ ''/'' @ platform @ ''/'';
          fetched =
            (case urlopen_read network url of
               Inr page \<Rightarrow> Inr (Some page)
             | Inl e \<Rightarrow>
                 if e = URLError then
                   (case fallback of
                      Some (Text content) \<Rightarrow> Inr (Some content)
                    | _ \<Rightarrow> Inr None)
                 else Inl e)
      in case fetched of
           Inl e \<Rightarrow> Inl e
         | Inr html_content \<Rightarrow> Inr (if truthy html_content then html_content else None))"

text \<open>A build log whose release line names a platform with a space.\<close>

definition spaced_build_log :: string where
  "spaced_build_log =
     ''-- LCG release '' @ [dquote] @ ''LCG_106b'' @ [dquote] @ '' for platform: x86 64'' @ [newline]"

section \<open>Identity of dependencies\<close>

lemma dep_eq_iff_identity: "dep_eq a (PyDep b) \<longleftrightarrow> dep_identity a = dep_identity b"
  by (simp add: dep_identity_def)

lemma set_contains_iff: "set_contains h s d \<longleftrightarrow> dep_identity d \<in> dep_identity ` set s"
  unfolding set_contains_def list_ex_iff dep_hash_def dep_identity_def image_iff
  by (metis dep_eq.simps(1))

lemma set_add_inv: "identity_inv s \<Longrightarrow> identity_inv (set_add h s d)"
  by (simp add: identity_inv_def set_add_def set_contains_iff)

text \<open>
  C8. Two Dependency records are equal exactly when their names and versions are equal,
  whatever their source and file path; equal records have equal hashes; a dependency set
  holds no two entries with the same name and version, and every add keeps it so; a record
  whose name and version are not yet stored is added, so one name can be stored at two
  versions.
\<close>

theorem dependency_identity:
  "(dep_eq a (PyDep b) \<longleftrightarrow> dep_name a = dep_name b \<and> dep_version a = dep_version b)
   \<and> dep_eq a (PyDep (a\<lparr>dep_source := src, dep_file_path := fp\<rparr>))
   \<and> (dep_eq a (PyDep b) \<longrightarrow> dep_hash h a = dep_hash h b)
   \<and> identity_inv []
   \<and> (identity_inv s \<longrightarrow> identity_inv (set_add h s d))
   \<and> (dep_identity d \<in> dep_identity ` set s \<longrightarrow> set_add h s d = s)
   \<and> (dep_identity d \<notin> dep_identity ` set s \<longrightarrow> set_add h s d = s @ [d])
   \<and> (dep_name a = dep_name b \<and> dep_version a \<noteq> dep_version b \<longrightarrow>
        set_add h (set_add h [] a) b = [a, b])"
proof -
  have "dep_name a = dep_name b \<and> dep_version a \<noteq> dep_version b \<longrightarrow>
        set_add h (set_add h [] a) b = [a, b]"
    by (simp add: set_add_def set_contains_iff dep_identity_def)
  moreover have "dep_eq a (PyDep b) \<longrightarrow> dep_hash h a = dep_hash h b"
    by (simp add: dep_hash_def)
  moreover have "identity_inv []"
    by (simp add: identity_inv_def)
  ultimately show ?thesis
    using set_add_inv[of s h d] by (simp add: set_add_def set_contains_iff)
qed

theorem dependency_identity_witness:
  "dep_eq \<lparr>dep_name = ''numpy'', dep_version = Some ''1.26.4'', dep_source = ''pyDep.txt'', dep_file_path = ''''\<rparr>
      (PyDep \<lparr>dep_name = ''numpy'', dep_version = Some ''1.26.4'', dep_source = ''LCG Website'', dep_file_path = ''a/b''\<rparr>)
   \<and> dep_hash (\<lambda>(n, v). int (length n))
        \<lparr>dep_name = ''numpy'', dep_version = Some ''1.26.4'', dep_source = ''pyDep.txt'', dep_file_path = ''''\<rparr>
     = dep_hash (\<lambda>(n, v). int (length n))
        \<lparr>dep_name = ''numpy'', dep_version = Some ''1.26.4'', dep_source = ''LCG Website'', dep_file_path = ''a/b''\<rparr>
   \<and> identity_inv [\<lparr>dep_name = ''numpy'', dep_version = Some ''1.26.4'', dep_source = ''pyDep.txt'', dep_file_path = ''''\<rparr>]
   \<and> identity_inv (set_add (\<lambda>(n, v). int (length n))
        [\<lparr>dep_name = ''numpy'', dep_version = Some ''1.26.4'', dep_source = ''pyDep.txt'', dep_file_path = ''''\<rparr>]
        \<lparr>dep_name = ''numpy'', dep_version = Some ''1.26.4'', dep_source = ''LCG Website'', dep_file_path = ''a/b''\<rparr>)
   \<and> set_add (\<lambda>(n, v). int (length n))
        [\<lparr>dep_name = ''numpy'', dep_version = Some ''1.26.4'', dep_source = ''pyDep.txt'', dep_file_path = ''''\<rparr>]
        \<lparr>dep_name = ''numpy'', dep_version = Some ''1.26.4'', dep_source = ''LCG Website'', dep_file_path = ''a/b''\<rparr>
     = [\<lparr>dep_name = ''numpy'', dep_version = Some ''1.26.4'', dep_source = ''pyDep.txt'', dep_file_path = ''''\<rparr>]"
  using dependency_identity
    [of "\<lparr>dep_name = ''numpy'', dep_version = Some ''1.26.4'', dep_source = ''pyDep.txt'', dep_file_path = ''''\<rparr>"
        "\<lparr>dep_name = ''numpy'', dep_version = Some ''1.26.4'', dep_source = ''LCG Website'', dep_file_path = ''a/b''\<rparr>"
        "''LCG Website''" "''a/b''" "\<lambda>(n, v). int (length n)"
        "[\<lparr>dep_name = ''numpy'', dep_version = Some ''1.26.4'', dep_source = ''pyDep.txt'', dep_file_path = ''''\<rparr>]"
        "\<lparr>dep_name = ''numpy'', dep_version = Some ''1.26.4'', dep_source = ''LCG Website'', dep_file_path = ''a/b''\<rparr>"]
  by (simp add: identity_inv_def dep_identity_def)

section \<open>Missing packages are the unmatched ones\<close>

lemma dict_in_iff: "dict_in k d \<longleftrightarrow> k \<in> fst ` set d"
  by (simp add: dict_in_def map_of_eq_None_iff)

lemma lower_keys_fold_dom:
  "fst ` set (foldl (\<lambda>d (k, v). dict_set d (py_lower k) v) acc xs)
     = fst ` set acc \<union> py_lower ` fst ` set xs"
proof (induction xs arbitrary: acc)
  case Nil
  then show ?case by simp
next
  case (Cons x xs)
  obtain k v where x: "x = (k, v)" by (cases x)
  show ?case using Cons.IH[of "dict_set acc (py_lower k) v"]
    by (simp add: x dict_set_def AList.dom_update)
qed

lemma dict_in_lower_keys:
  "dict_in (py_lower p) (lower_keys lcg) \<longleftrightarrow> case_insensitive_match lcg p"
  unfolding dict_in_iff lower_keys_def lower_keys_fold_dom case_insensitive_match_def
  by (simp add: image_iff) metis

lemma find_missing_loop_filter:
  "find_missing_loop lcg (lower_keys lcg) bp missing =
     missing @ filter (\<lambda>p. \<not> (exact_match lcg p \<or> case_insensitive_match lcg p \<or> alias_match lcg p)) bp"
proof (induction bp arbitrary: missing)
  case Nil
  then show ?case by simp
next
  case (Cons p bp)
  have a: "map_of name_mappings p = (if p = ''nlohmann_json'' then Some ''jsonmcpp'' else None)"
    by (simp add: name_mappings_def)
  show ?case
    by (simp add: Cons.IH a dict_in_lower_keys alias_match_def) (simp add: dict_in_iff exact_match_def)
qed

text \<open>
  C7. \<open>find_missing_packages\<close> returns the expected names, in their order, that none of
  the three strategies matches: an expected name is missing if and only if it has no exact
  key match, no case-insensitive key match and no match through the alias table.
\<close>

theorem find_missing_packages_unmatched:
  "find_missing_packages build_packages lcg =
     filter (\<lambda>p. \<not> (exact_match lcg p \<or> case_insensitive_match lcg p \<or> alias_match lcg p))
       build_packages
   \<and> (p \<in> set (find_missing_packages build_packages lcg) \<longleftrightarrow>
        p \<in> set build_packages
        \<and> \<not> exact_match lcg p \<and> \<not> case_insensitive_match lcg p \<and> \<not> alias_match lcg p)"
  by (auto simp: find_missing_packages_def find_missing_loop_filter)

theorem find_missing_packages_unmatched_witness:
  "find_missing_packages [''Boost'', ''ROOT'', ''nlohmann_json'', ''Acts'']
      [(''Boost'', ''1.82.0''), (''root'', ''6.28''), (''JsonMCPP'', ''3.11'')] = [''Acts'']
   \<and> \<not> exact_match [(''Boost'', ''1.82.0''), (''root'', ''6.28''), (''JsonMCPP'', ''3.11'')] ''Acts''
   \<and> \<not> case_insensitive_match [(''Boost'', ''1.82.0''), (''root'', ''6.28''), (''JsonMCPP'', ''3.11'')] ''Acts''
   \<and> \<not> alias_match [(''Boost'', ''1.82.0''), (''root'', ''6.28''), (''JsonMCPP'', ''3.11'')] ''Acts''"
proof -
  have r: "find_missing_packages [''Boost'', ''ROOT'', ''nlohmann_json'', ''Acts'']
      [(''Boost'', ''1.82.0''), (''root'', ''6.28''), (''JsonMCPP'', ''3.11'')] = [''Acts'']"
    by code_simp
  show ?thesis
    using find_missing_packages_unmatched
      [of "[''Boost'', ''ROOT'', ''nlohmann_json'', ''Acts'']"
          "[(''Boost'', ''1.82.0''), (''root'', ''6.28''), (''JsonMCPP'', ''3.11'')]" "''Acts''"]
    unfolding r by simp
qed

section \<open>The next version number\<close>

lemma collect_versions_set:
  "set (collect_versions es acc) = set acc \<union> version_numbers es"
proof (induction es acc rule: collect_versions.induct)
  case (1 acc)
  then show ?case by (simp add: version_numbers_def)
next
  case (2 nm d rest acc)
  have vn: "version_numbers ((nm, d) # rest) =
      (if d \<and> startswith nm ''v''
       then (case python_int (drop 1 nm) of Some n \<Rightarrow> {n} | None \<Rightarrow> {}) else {})
      \<union> version_numbers rest"
    by (cases nm) (auto simp: version_numbers_def startswith_def split: option.splits)
  show ?case using 2 by (auto simp: vn split: option.splits)
qed

lemma py_max_Max: "xs \<noteq> [] \<Longrightarrow> py_max xs = Max (set xs)"
  by (induction xs rule: py_max.induct) (auto simp: Let_def max_def)

lemma next_version_Dir:
  "get_next_version_number (Dir es) =
     (if version_numbers es = {} then Inr 1 else Inr (Max (version_numbers es) + 1))"
proof -
  have s: "set (collect_versions es []) = version_numbers es"
    by (simp add: collect_versions_set)
  show ?thesis
  proof (cases "collect_versions es [] = []")
    case True
    then show ?thesis using s by (simp add: get_next_version_number_def)
  next
    case False
    then have "version_numbers es \<noteq> {}" using s by (metis set_empty)
    then show ?thesis using False s by (simp add: get_next_version_number_def py_max_Max)
  qed
qed

text \<open>
  C4. \<open>get_next_version_number\<close> returns 1 when the versions directory is absent or holds
  no directory named \<open>v\<close> followed by a number that \<open>int()\<close> parses, and otherwise the
  greatest parsed number plus one; entries that are not directories and names whose suffix
  does not parse are ignored. For the directories v1, v2 and v7 it returns 8.
\<close>

theorem next_version_number:
  "get_next_version_number Absent = Inr 1
   \<and> (version_numbers es = {} \<longrightarrow> get_next_version_number (Dir es) = Inr 1)
   \<and> (version_numbers es \<noteq> {} \<longrightarrow>
        get_next_version_number (Dir es) = Inr (Max (version_numbers es) + 1))
   \<and> get_next_version_number (Dir [(''v1'', True), (''v2'', True), (''v7'', True)]) = Inr 8"
proof -
  have "get_next_version_number (Dir [(''v1'', True), (''v2'', True), (''v7'', True)]) = Inr 8"
    by code_simp
  moreover have "get_next_version_number Absent = Inr 1"
    by (simp add: get_next_version_number_def)
  ultimately show ?thesis by (simp add: next_version_Dir)
qed

theorem next_version_number_witness:
  "version_numbers [(''v1'', True), (''vlatest'', True), (''v7'', True), (''v9'', False), (''notes'', True)] \<noteq> {}
   \<and> get_next_version_number
        (Dir [(''v1'', True), (''vlatest'', True), (''v7'', True), (''v9'', False), (''notes'', True)]) = Inr 8
   \<and> Max (version_numbers [(''v1'', True), (''vlatest'', True), (''v7'', True), (''v9'', False), (''notes'', True)]) = 7
   \<and> version_numbers [(''vlatest'', True), (''v9'', False)] = {}
   \<and> get_next_version_number (Dir [(''vlatest'', True), (''v9'', False)]) = Inr 1"
proof -
  have c1: "collect_versions [(''v1'', True), (''vlatest'', True), (''v7'', True), (''v9'', False), (''notes'', True)] [] = [1, 7]"
    by code_simp
  have c2: "collect_versions [(''vlatest'', True), (''v9'', False)] [] = []"
    by code_simp
  have v1: "version_numbers [(''v1'', True), (''vlatest'', True), (''v7'', True), (''v9'', False), (''notes'', True)] = {1, 7}"
    using collect_versions_set[of "[(''v1'', True), (''vlatest'', True), (''v7'', True), (''v9'', False), (''notes'', True)]" "[]"]
    unfolding c1 by simp
  have v2: "version_numbers [(''vlatest'', True), (''v9'', False)] = {}"
    using collect_versions_set[of "[(''vlatest'', True), (''v9'', False)]" "[]"]
    unfolding c2 by simp
  show ?thesis
    using next_version_number[of "[(''v1'', True), (''vlatest'', True), (''v7'', True), (''v9'', False), (''notes'', True)]"]
      next_version_number[of "[(''vlatest'', True), (''v9'', False)]"]
    unfolding v1 v2 by simp
qed

lemma version_numbers_single:
  "version_numbers [(CHR ''v'' # s, True)] = (case python_int s of Some n \<Rightarrow> {n} | None \<Rightarrow> {})"
  by (auto simp: version_numbers_def split: option.splits)

text \<open>
  C10. \<open>get_next_version_number\<close> takes as a version directory every directory named
  \<open>v\<close> followed by a string that \<open>int()\<close> parses, signs included: when the only entry
  is such a directory the result is the parsed number plus one. \<open>int()\<close> parses \<open>-3\<close>
  and \<open>+5\<close>, and for the single directory \<open>v-3\<close> the result is \<open>-2\<close>, below one.
\<close>

theorem next_version_number_signed:
  "(python_int s = Some n \<longrightarrow> get_next_version_number (Dir [(CHR ''v'' # s, True)]) = Inr (n + 1))
   \<and> python_int ''-3'' = Some (- 3)
   \<and> python_int ''+5'' = Some 5
   \<and> get_next_version_number (Dir [(''v-3'', True)]) = Inr (- 2)
   \<and> get_next_version_number (Dir [(''v-1'', True)]) = Inr 0"
proof -
  have "python_int ''-3'' = Some (- 3)" by code_simp
  moreover have "python_int ''+5'' = Some 5" by code_simp
  moreover have "get_next_version_number (Dir [(''v-3'', True)]) = Inr (- 2)" by code_simp
  moreover have "get_next_version_number (Dir [(''v-1'', True)]) = Inr 0" by code_simp
  ultimately show ?thesis by (simp add: next_version_Dir version_numbers_single)
qed

theorem next_version_number_signed_witness:
  "python_int ''-12'' = Some (- 12)
   \<and> get_next_version_number (Dir [(''v-12'', True)]) = Inr (- 11)"
proof -
  have p: "python_int ''-12'' = Some (- 12)" by code_simp
  show ?thesis using next_version_number_signed[of "''-12''" "- 12"] p by simp
qed

section \<open>The signature\<close>

lemma sort_mset_cong: "mset xs = mset ys \<Longrightarrow> sort xs = sort (ys :: 'a::linorder list)"
  by (metis sorted_list_of_multiset_mset)

lemma sort_set_cong:
  assumes "distinct xs" "distinct ys" "set xs = set ys"
  shows "sort xs = sort (ys :: 'a::linorder list)"
  using assms by (metis distinct_remdups_id sorted_list_of_set_sort_remdups)

lemma foldl_dict_set_distinct:
  "distinct (map fst acc) \<Longrightarrow>
   distinct (map fst (foldl (\<lambda>d x. dict_set d (fst (f x)) (snd (f x))) acc xs))"
  by (induction xs arbitrary: acc) (simp_all add: dict_set_def AList.distinct_update)

lemma dict_set_agree:
  assumes "distinct (map fst acc)" "\<forall>v'. (k, v') \<in> set acc \<longrightarrow> v' = v"
  shows "set (dict_set acc k v) = insert (k, v) (set acc)"
proof (cases "k \<in> fst ` set acc")
  case True
  then obtain v' where "(k, v') \<in> set acc" by auto
  with assms have in_acc: "(k, v) \<in> set acc" by auto
  with assms(1) have "map_of acc k = Some v" by simp
  then have "AList.update k v acc = acc" by (rule AList.update_triv)
  with in_acc show ?thesis by (auto simp: dict_set_def)
next
  case False
  then show ?thesis by (induction acc) (auto simp: dict_set_def)
qed

lemma foldl_dict_set_set:
  assumes "distinct (map fst acc)"
    and "\<forall>a \<in> set acc \<union> f ` set xs. \<forall>b \<in> set acc \<union> f ` set xs. fst a = fst b \<longrightarrow> a = b"
  shows "set (foldl (\<lambda>d x. dict_set d (fst (f x)) (snd (f x))) acc xs) = set acc \<union> f ` set xs"
  using assms
proof (induction xs arbitrary: acc)
  case Nil
  then show ?case by simp
next
  case (Cons x xs)
  let ?acc = "dict_set acc (fst (f x)) (snd (f x))"
  have s: "set ?acc = insert (f x) (set acc)"
  proof -
    have "\<forall>v'. (fst (f x), v') \<in> set acc \<longrightarrow> v' = snd (f x)"
    proof (intro allI impI)
      fix v' assume a: "(fst (f x), v') \<in> set acc"
      have "(fst (f x), v') = f x"
        using Cons.prems(2) a by (metis UnI1 UnI2 fst_conv imageI list.set_intros(1))
      then show "v' = snd (f x)" by (metis snd_conv)
    qed
    then show ?thesis
      using dict_set_agree[of acc "fst (f x)" "snd (f x)"] Cons.prems(1) by simp
  qed
  have d: "distinct (map fst ?acc)"
    using Cons.prems(1) by (simp add: dict_set_def AList.distinct_update)
  have "set (foldl (\<lambda>d x. dict_set d (fst (f x)) (snd (f x))) ?acc xs) = set ?acc \<union> f ` set xs"
    apply (rule Cons.IH[OF d]) using Cons.prems(2) s by auto
  then show ?case using s by auto
qed

lemma props_dict_of_alt:
  "props_dict_of ps = foldl (\<lambda>d x. dict_set d (fst (prop_item x)) (snd (prop_item x))) [] ps"
  by (simp add: props_dict_of_def prop_item_def)

lemma props_dict_of_set: "names_agree ps \<Longrightarrow> set (props_dict_of ps) = prop_item ` set ps"
  unfolding props_dict_of_alt using foldl_dict_set_set[of "[]" prop_item ps]
  by (simp add: names_agree_def)

lemma props_dict_of_distinct: "distinct (props_dict_of ps)"
  unfolding props_dict_of_alt using foldl_dict_set_distinct[of "[]" prop_item ps]
  by (simp add: distinct_map)

lemma names_agree_perm: "mset ps' = mset ps \<Longrightarrow> names_agree ps' = names_agree ps"
  by (metis names_agree_def set_mset_mset)

lemma sort_props_perm:
  assumes "mset ps' = mset ps" "names_agree ps"
  shows "sort (props_dict_of ps') = sort (props_dict_of ps)"
proof -
  have "names_agree ps'" using assms names_agree_perm by blast
  moreover have "set ps' = set ps" using assms(1) by (metis set_mset_mset)
  ultimately have "set (props_dict_of ps') = set (props_dict_of ps)"
    using assms(2) by (simp add: props_dict_of_set)
  then show ?thesis by (rule sort_set_cong[OF props_dict_of_distinct props_dict_of_distinct])
qed

text \<open>
  C2, as the code has it. The signature is the same for every permutation of the
  components list, and for every permutation of the metadata properties list in which no
  two properties carry the same name with different values. (Of two such properties the
  later one wins, so their order shows in the signature.)
\<close>

theorem signature_order_independent:
  assumes "mset cs' = mset cs" and "mset ps' = mset ps" and "names_agree ps"
  shows "get_sbom_signature
           (d\<lparr>sbom_components := Some cs', sbom_metadata := Some (m\<lparr>meta_properties := Some ps'\<rparr>)\<rparr>) b
       = get_sbom_signature
           (d\<lparr>sbom_components := Some cs, sbom_metadata := Some (m\<lparr>meta_properties := Some ps\<rparr>)\<rparr>) b"
proof -
  have "mset (map (\<lambda>comp. (get_or (comp_name comp) '''', get_or (comp_version comp) '''')) cs')
      = mset (map (\<lambda>comp. (get_or (comp_name comp) '''', get_or (comp_version comp) '''')) cs)"
    using assms(1) by (metis mset_map)
  then have c: "sort (map (\<lambda>comp. (get_or (comp_name comp) '''', get_or (comp_version comp) '''')) cs')
      = sort (map (\<lambda>comp. (get_or (comp_name comp) '''', get_or (comp_version comp) '''')) cs)"
    by (rule sort_mset_cong)
  show ?thesis
    using c by (cases b)
      (simp_all add: get_sbom_signature_def get_or_def sort_props_perm[OF assms(2,3)] Let_def)
qed

theorem signature_order_independent_witness:
  "mset [example_component ''b'' ''2'', example_component ''a'' ''1'']
     = mset [example_component ''a'' ''1'', example_component ''b'' ''2'']
   \<and> mset [example_property ''Athena'' ''24.0'', example_property ''LCG'' ''106b'']
     = mset [example_property ''LCG'' ''106b'', example_property ''Athena'' ''24.0'']
   \<and> names_agree [example_property ''LCG'' ''106b'', example_property ''Athena'' ''24.0'']
   \<and> get_sbom_signature
        (example_sbom [example_property ''Athena'' ''24.0'', example_property ''LCG'' ''106b'']
           [example_component ''b'' ''2'', example_component ''a'' ''1'']) None
     = get_sbom_signature
        (example_sbom [example_property ''LCG'' ''106b'', example_property ''Athena'' ''24.0'']
           [example_component ''a'' ''1'', example_component ''b'' ''2'']) None"
proof -
  have h1: "mset [example_component ''b'' ''2'', example_component ''a'' ''1'']
     = mset [example_component ''a'' ''1'', example_component ''b'' ''2'']"
    by simp
  have h2: "mset [example_property ''Athena'' ''24.0'', example_property ''LCG'' ''106b'']
     = mset [example_property ''LCG'' ''106b'', example_property ''Athena'' ''24.0'']"
    by simp
  have h3: "names_agree [example_property ''LCG'' ''106b'', example_property ''Athena'' ''24.0'']"
    by (simp add: names_agree_def prop_item_def example_property_def get_or_def)
  show ?thesis
    using h1 h2 h3
      signature_order_independent [OF h1 h2 h3, where d = "example_sbom [] []"
        and m = "\<lparr>meta_timestamp = Some ''2025-01-01T00:00:00'', meta_properties = None\<rparr>"
        and b = None]
    by (simp add: example_sbom_def)
qed

text \<open>
  C2, as stated, fails: two properties with one name and different values, in the two
  orders, give two signatures.
\<close>

theorem signature_property_order_counterexample:
  "mset [example_property ''Athena'' ''24.1'', example_property ''Athena'' ''24.0'']
     = mset [example_property ''Athena'' ''24.0'', example_property ''Athena'' ''24.1'']
   \<and> get_sbom_signature
        (example_sbom [example_property ''Athena'' ''24.1'', example_property ''Athena'' ''24.0'']
           [example_component ''a'' ''1'']) None
     \<noteq> get_sbom_signature
        (example_sbom [example_property ''Athena'' ''24.0'', example_property ''Athena'' ''24.1'']
           [example_component ''a'' ''1'']) None"
  by (simp add: get_sbom_signature_def example_sbom_def example_property_def get_or_def
      props_dict_of_def dict_set_def)

text \<open>
  C3. Two manifests that differ only in the generation timestamp of their metadata have
  the same signature, with the same build information.
\<close>

theorem signature_timestamp_independent:
  "get_sbom_signature (d\<lparr>sbom_metadata := Some (m\<lparr>meta_timestamp := t1\<rparr>)\<rparr>) b
     = get_sbom_signature (d\<lparr>sbom_metadata := Some (m\<lparr>meta_timestamp := t2\<rparr>)\<rparr>) b"
  by (cases b) (simp_all add: get_sbom_signature_def get_or_def)

section \<open>The Boost pattern\<close>

lemma rmatch_boost_tarball:
  "rmatch boost_regex n (boost_tarball @ post, g) = [(post, (1, ''1_82_0'') # g)]"
  by (simp add: boost_regex_def boost_tarball_def Plus_def cls_digit_underscore_def is_digit_def code_def)

lemma rmatch_boost_pattern_tarball:
  "rmatch (hd boost_patterns) n (drop 9 boost_tarball @ post, g) = [(CHR '';'' # post, (1, ''1_82_0'') # g)]"
  by (simp add: boost_patterns_def boost_tarball_def Plus_def cls_digit_underscore_def is_digit_def code_def)

lemma search_from_skip:
  "\<forall>i<length p. rmatch r n (drop i (p @ s), []) = [] \<Longrightarrow>
   search_from r n (p @ s) = search_from r n s"
proof (induction p)
  case Nil
  then show ?case by simp
next
  case (Cons c p)
  have 0: "rmatch r n ((c # p) @ s, []) = []" using Cons.prems by force
  have "\<forall>i<length p. rmatch r n (drop i (p @ s), []) = []"
  proof (intro allI impI)
    fix i assume "i < length p"
    then have "Suc i < length (c # p)" by simp
    then have "rmatch r n (drop (Suc i) ((c # p) @ s), []) = []" using Cons.prems by blast
    then show "rmatch r n (drop i (p @ s), []) = []" by simp
  qed
  then have "search_from r n (p @ s) = search_from r n s"
    by (rule Cons.IH)
  then show ?case using 0 by (simp add: match_at_def)
qed

lemma search_from_here:
  "rmatch r n (s, []) = (s', g) # ms \<Longrightarrow>
   search_from r n s = Some \<lparr>m_text = take (length s - length s') s, m_groups = g\<rparr>"
  by (cases s) (simp_all add: match_at_def)

lemma search_from_found:
  "rmatch r n (s2, []) \<noteq> [] \<Longrightarrow> search_from r n (s1 @ s2) \<noteq> None"
proof (induction s1)
  case Nil
  then obtain s' g ms where "rmatch r n (s2, []) = (s', g) # ms" by (cases "rmatch r n (s2, [])") auto
  then show ?case using search_from_here by fastforce
next
  case (Cons c s1)
  then show ?case by (simp split: option.splits)
qed

lemma no_match_before_iff:
  "no_match_before r k s \<longleftrightarrow> (\<forall>i<k. rmatch r (length s) (drop i s, []) = [])"
  by (auto simp: no_match_before_def list_all_iff)

lemma re_search_first:
  assumes "no_match_before r (length p) (p @ s)" and "rmatch r (length (p @ s)) (s, []) = (s', g) # ms"
  shows "re_search r (p @ s) = Some \<lparr>m_text = take (length s - length s') s, m_groups = g\<rparr>"
proof -
  have "search_from r (length (p @ s)) (p @ s) = search_from r (length (p @ s)) s"
    apply (rule search_from_skip) using assms(1) by (simp add: no_match_before_iff)
  then show ?thesis using search_from_here[OF assms(2)] by (simp add: re_search_def)
qed

lemma boost_search:
  assumes "no_match_before boost_regex (length pre) (pre @ boost_tarball @ post)"
  shows "re_search boost_regex (pre @ boost_tarball @ post) =
     Some \<lparr>m_text = boost_tarball, m_groups = [(1, ''1_82_0'')]\<rparr>"
  using re_search_first[OF assms rmatch_boost_tarball] by simp

lemma boost_scan:
  assumes "\<forall>l \<in> set ls1. re_search boost_regex l = None"
    and "no_match_before boost_regex (length pre) (pre @ boost_tarball @ post)"
  shows "scan_cmake_lines ''Boost'' boost_regex (ls1 @ (pre @ boost_tarball @ post) # ls2) = Inr (Some (''Boost: 1.82.0'' @ [newline]))"
  using assms(1)
proof (induction ls1)
  case Nil
  show ?case by (simp add: boost_search[OF assms(2)] group_def py_replace_char_def)
next
  case (Cons l ls1)
  then show ?case by simp
qed

lemma boost_matches: "re_search boost_regex (pre @ boost_tarball @ post) \<noteq> None"
  unfolding re_search_def
  by (rule search_from_found) (simp add: rmatch_boost_tarball)

lemma boost_backend_search:
  assumes "no_match_before (hd boost_patterns) (length pre + 9) (pre @ boost_tarball @ post)"
  shows "re_search (hd boost_patterns) (pre @ boost_tarball @ post) =
     Some \<lparr>m_text = ''boost_1_82_0.tar.gz'', m_groups = [(1, ''1_82_0'')]\<rparr>"
proof -
  have e: "pre @ boost_tarball @ post = (pre @ take 9 boost_tarball) @ (drop 9 boost_tarball @ post)"
    by (simp add: boost_tarball_def)
  have l: "length (pre @ take 9 boost_tarball) = length pre + 9" by (simp add: boost_tarball_def)
  show ?thesis unfolding e
    apply (subst re_search_first[OF _ rmatch_boost_pattern_tarball])
    using assms unfolding e l apply simp
    apply (simp add: boost_tarball_def)
    done
qed

lemma boost_backend_entry:
  assumes "no_match_before (hd boost_patterns) (length pre + 9) (pre @ boost_tarball @ post)"
  shows "find_entry ''Boost'' ''Boost'' boost_patterns (pre @ boost_tarball @ post) = Some ''Boost: 1.82.0''"
proof -
  have b: "boost_patterns = [hd boost_patterns]" by (simp add: boost_patterns_def)
  have ne: "pre @ boost_tarball @ post \<noteq> []" by (simp add: boost_tarball_def)
  have "first_found boost_patterns (pre @ boost_tarball @ post) None = Some ''1_82_0''"
    by (subst b) (simp add: boost_backend_search[OF assms] group_def)
  then show ?thesis using ne by (simp add: find_entry_def truthy_def py_replace_char_def)
qed

lemma boost_backend_matches: "re_search (hd boost_patterns) (pre @ boost_tarball @ post) \<noteq> None"
proof -
  have e: "pre @ boost_tarball @ post = (pre @ take 9 boost_tarball) @ (drop 9 boost_tarball @ post)"
    by (simp add: boost_tarball_def)
  show ?thesis unfolding re_search_def e
    by (rule search_from_found) (simp add: rmatch_boost_pattern_tarball)
qed

text \<open>
  C6, as the code has it. On every text that contains \<open>/sources/boost_1_82_0.tar.gz;\<close>
  the Boost pattern matches. The match taken is the first one: when no match starts
  earlier (in \<open>parse_cmakelists\<close> of \<open>AnalysisBase\<close>: in no earlier line, and at no
  earlier position of the line), the group is \<open>1_82_0\<close> and the version written is
  \<open>1.82.0\<close>. The same holds for the pattern of the backend on the whole content.
\<close>

theorem boost_version_first_match:
  "re_search boost_regex (pre @ boost_tarball @ post) \<noteq> None
   \<and> re_search (hd boost_patterns) (pre @ boost_tarball @ post) \<noteq> None
   \<and> ((\<forall>l \<in> set earlier. re_search boost_regex l = None)
        \<and> no_match_before boost_regex (length pre) (pre @ boost_tarball @ post) \<longrightarrow>
        map_option (\<lambda>m. group m 1) (re_search boost_regex (pre @ boost_tarball @ post))
          = Some (Some ''1_82_0'')
        \<and> py_replace_char (CHR ''_'') (CHR ''.'') ''1_82_0'' = ''1.82.0''
        \<and> scan_cmake_lines ''Boost'' boost_regex (earlier @ (pre @ boost_tarball @ post) # later)
          = Inr (Some (''Boost: 1.82.0'' @ [newline])))
   \<and> (no_match_before (hd boost_patterns) (length pre + 9) (pre @ boost_tarball @ post) \<longrightarrow>
        map_option (\<lambda>m. group m 1) (re_search (hd boost_patterns) (pre @ boost_tarball @ post))
          = Some (Some ''1_82_0'')
        \<and> find_entry ''Boost'' ''Boost'' boost_patterns (pre @ boost_tarball @ post)
          = Some ''Boost: 1.82.0'')"
proof -
  have "py_replace_char (CHR ''_'') (CHR ''.'') ''1_82_0'' = ''1.82.0''"
    by (simp add: py_replace_char_def)
  then show ?thesis
    using boost_matches[of pre post] boost_backend_matches[of pre post]
      boost_search[of pre post] boost_scan[of earlier pre post later]
      boost_backend_search[of pre post] boost_backend_entry[of pre post]
    by (simp add: group_def)
qed

theorem boost_version_first_match_witness:
  "re_search boost_regex (''# Boost'' @ [newline]) = None
   \<and> re_search boost_regex (''set( _source'' @ [newline]) = None
   \<and> no_match_before boost_regex (length ''  http://cern.ch/lcgpackages/tarFiles'')
        (''  http://cern.ch/lcgpackages/tarFiles'' @ boost_tarball @ ''URL_MD5=0)'' @ [newline])
   \<and> no_match_before (hd boost_patterns) (length ''  http://cern.ch/lcgpackages/tarFiles'' + 9)
        (''  http://cern.ch/lcgpackages/tarFiles'' @ boost_tarball @ ''URL_MD5=0)'' @ [newline])
   \<and> scan_cmake_lines ''Boost'' boost_regex
        ([''# Boost'' @ [newline], ''set( _source'' @ [newline]]
         @ (''  http://cern.ch/lcgpackages/tarFiles'' @ boost_tarball @ ''URL_MD5=0)'' @ [newline])
         # [''/sources/boost_1_70_0.tar.gz;''])
       = Inr (Some (''Boost: 1.82.0'' @ [newline]))
   \<and> find_entry ''Boost'' ''Boost'' boost_patterns
        (''  http://cern.ch/lcgpackages/tarFiles'' @ boost_tarball @ ''URL_MD5=0)'' @ [newline])
       = Some ''Boost: 1.82.0''"
proof -
  have h0: "re_search boost_regex (''# Boost'' @ [newline]) = None"
    "re_search boost_regex (''set( _source'' @ [newline]) = None"
    by code_simp+
  then have h1: "\<forall>l \<in> set [''# Boost'' @ [newline], ''set( _source'' @ [newline]]. re_search boost_regex l = None"
    by simp
  have h2: "no_match_before boost_regex (length ''  http://cern.ch/lcgpackages/tarFiles'')
        (''  http://cern.ch/lcgpackages/tarFiles'' @ boost_tarball @ ''URL_MD5=0)'' @ [newline])"
    by code_simp
  have h3: "no_match_before (hd boost_patterns) (length ''  http://cern.ch/lcgpackages/tarFiles'' + 9)
        (''  http://cern.ch/lcgpackages/tarFiles'' @ boost_tarball @ ''URL_MD5=0)'' @ [newline])"
    by code_simp
  show ?thesis
    using h0 h1 h2 h3
      boost_version_first_match
        [of "''  http://cern.ch/lcgpackages/tarFiles''" "''URL_MD5=0)'' @ [newline]"
            "[''# Boost'' @ [newline], ''set( _source'' @ [newline]]" "[''/sources/boost_1_70_0.tar.gz;'']"]
    by simp
qed

text \<open>
  C6, as stated, fails: a text that contains the tarball after an earlier Boost tarball
  gives the version of the earlier one.
\<close>

theorem boost_version_counterexample:
  "py_contains boost_tarball (''x/sources/boost_1_70_0.tar.gz; y'' @ boost_tarball @ [newline])
   \<and> map_option (\<lambda>m. group m 1)
        (re_search boost_regex (''x/sources/boost_1_70_0.tar.gz; y'' @ boost_tarball @ [newline]))
       = Some (Some ''1_70_0'')
   \<and> scan_cmake_lines ''Boost'' boost_regex
        (readlines (''x/sources/boost_1_70_0.tar.gz; y'' @ boost_tarball @ [newline]))
       = Inr (Some (''Boost: 1.70.0'' @ [newline]))
   \<and> find_entry ''Boost'' ''Boost'' boost_patterns
        (''x/sources/boost_1_70_0.tar.gz; y'' @ boost_tarball @ [newline])
       = Some ''Boost: 1.70.0''"
  by code_simp

section \<open>The requirement parsers on the example\<close>

text \<open>
  C5, as the code has it. On the example input, \<open>parse_requirements_file\<close> adds exactly
  two records, \<open>numpy\<close> with version \<open>==1.26.4\<close> (the operator is kept) and \<open>requests\<close>
  with version \<open>>=2.0\<close>, and none for the comment line and the blank line. In
  \<open>parse_py_deps\<close> the line \<open>numpy==1.26.4\<close> adds \<open>numpy\<close> with version \<open>1.26.4\<close>, and
  a blank line adds nothing.
\<close>

theorem requirement_parsers_example:
  "parse_requirements_file example_hash ''requirements.txt'' (Text example_requirements) [] =
     ([\<lparr>dep_name = ''numpy'', dep_version = Some ''==1.26.4'',
        dep_source = ''requirements.txt'', dep_file_path = ''requirements.txt''\<rparr>,
       \<lparr>dep_name = ''requests'', dep_version = Some ''>=2.0'',
        dep_source = ''requirements.txt'', dep_file_path = ''requirements.txt''\<rparr>], False)
   \<and> py_deps_line example_hash [] (''numpy==1.26.4'' @ [newline]) =
     Inr [\<lparr>dep_name = ''numpy'', dep_version = Some ''1.26.4'',
           dep_source = ''pyDep.txt'', dep_file_path = ''''\<rparr>]
   \<and> py_deps_line example_hash deps [newline] = Inr deps"
proof -
  have a: "parse_requirements_file example_hash ''requirements.txt'' (Text example_requirements) [] =
     ([\<lparr>dep_name = ''numpy'', dep_version = Some ''==1.26.4'',
        dep_source = ''requirements.txt'', dep_file_path = ''requirements.txt''\<rparr>,
       \<lparr>dep_name = ''requests'', dep_version = Some ''>=2.0'',
        dep_source = ''requirements.txt'', dep_file_path = ''requirements.txt''\<rparr>], False)"
    by code_simp
  have b: "py_deps_line example_hash [] (''numpy==1.26.4'' @ [newline]) =
     Inr [\<lparr>dep_name = ''numpy'', dep_version = Some ''1.26.4'',
           dep_source = ''pyDep.txt'', dep_file_path = ''''\<rparr>]"
    by code_simp
  have "py_strip [newline] = []" by code_simp
  then have c: "py_deps_line example_hash deps [newline] = Inr deps"
    by (simp add: py_deps_line_def)
  show ?thesis using a b c by simp
qed

text \<open>
  C5, as stated, fails: \<open>parse_requirements_file\<close> yields \<open>numpy\<close> with version
  \<open>==1.26.4\<close> and no record \<open>numpy\<close> with version \<open>1.26.4\<close>.
\<close>

theorem requirement_parsers_counterexample:
  "(''numpy'', Some ''1.26.4'')
     \<notin> dep_identity ` set (fst (parse_requirements_file example_hash ''requirements.txt''
                                 (Text example_requirements) []))
   \<and> (''numpy'', Some ''==1.26.4'')
     \<in> dep_identity ` set (fst (parse_requirements_file example_hash ''requirements.txt''
                                 (Text example_requirements) []))"
proof -
  have a: "parse_requirements_file example_hash ''requirements.txt'' (Text example_requirements) [] =
     ([\<lparr>dep_name = ''numpy'', dep_version = Some ''==1.26.4'',
        dep_source = ''requirements.txt'', dep_file_path = ''requirements.txt''\<rparr>,
       \<lparr>dep_name = ''requests'', dep_version = Some ''>=2.0'',
        dep_source = ''requirements.txt'', dep_file_path = ''requirements.txt''\<rparr>], False)"
    by code_simp
  show ?thesis unfolding a by (simp add: dep_identity_def)
qed

section \<open>What every match captures\<close>

lemma many_rests_suffix: "r \<in> set (many_rests P s) \<Longrightarrow> \<exists>p. s = p @ r"
proof (induction s)
  case Nil then show ?case by simp
next
  case (Cons c s)
  then show ?case by (auto split: if_splits)
qed

lemma rmatch_grow:
  "(s', g') \<in> set (rmatch r n (s, g)) \<Longrightarrow> (\<exists>p. s = p @ s') \<and> (\<exists>d. g' = d @ g)"
proof (induction r arbitrary: s g s' g')
  case (Lit w)
  then show ?case by (auto split: if_splits) (metis append_take_drop_id)
next
  case (Cls P)
  then show ?case by (auto split: list.splits if_splits)
next
  case (Many P)
  then show ?case using many_rests_suffix by fastforce
next
  case (Few P)
  then show ?case using many_rests_suffix by fastforce
next
  case (Seq r1 r2)
  from Seq.prems obtain s1 g1 where 1: "(s1, g1) \<in> set (rmatch r1 n (s, g))"
    and 2: "(s', g') \<in> set (rmatch r2 n (s1, g1))" by auto
  from Seq.IH(1)[OF 1] Seq.IH(2)[OF 2] show ?case by (metis append.assoc)
next
  case (Alt r1 r2)
  then show ?case by auto
next
  case (Grp k r)
  from Grp.prems obtain g0 where 1: "(s', g0) \<in> set (rmatch r n (s, g))"
    and 2: "g' = (k, take (length s - length s') s) # g0" by auto
  from Grp.IH[OF 1] 2 show ?case by (metis append_Cons)
next
  case Bol
  then show ?case by (auto split: if_splits)
next
  case Eol
  then show ?case by (auto split: if_splits)
qed

lemma sets_group_rmatch:
  "sets_group k r \<Longrightarrow> (s', g') \<in> set (rmatch r n (s, g)) \<Longrightarrow> map_of g' k \<noteq> None"
proof (induction r arbitrary: s g s' g')
  case (Seq r1 r2)
  from Seq.prems(2) obtain s1 g1 where 1: "(s1, g1) \<in> set (rmatch r1 n (s, g))"
    and 2: "(s', g') \<in> set (rmatch r2 n (s1, g1))" by auto
  show ?case
  proof (cases "sets_group k r2")
    case True
    then show ?thesis using Seq.IH(2) 2 by blast
  next
    case False
    then have "sets_group k r1" using Seq.prems(1) by simp
    then have "map_of g1 k \<noteq> None" using Seq.IH(1) 1 by blast
    moreover obtain d where "g' = d @ g1" using rmatch_grow[OF 2] by blast
    ultimately show ?thesis by (auto simp: map_add_def split: option.splits)
  qed
next
  case (Alt r1 r2)
  then show ?case by auto
next
  case (Grp j r)
  from Grp.prems(2) obtain g0 where 1: "(s', g0) \<in> set (rmatch r n (s, g))"
    and 2: "g' = (j, take (length s - length s') s) # g0" by auto
  show ?case
  proof (cases "j = k")
    case True
    then show ?thesis using 2 by simp
  next
    case False
    then have "sets_group k r" using Grp.prems(1) by simp
    then show ?thesis using Grp.IH 1 2 False by auto
  qed
qed simp_all

lemma match_at_groups:
  "match_at r n s = Some m \<Longrightarrow> \<exists>s'. (s', m_groups m) \<in> set (rmatch r n (s, []))"
  by (auto simp: match_at_def split: list.splits)

lemma search_from_groups:
  "search_from r n s = Some m \<Longrightarrow> \<exists>s0 s'. (s', m_groups m) \<in> set (rmatch r n (s0, []))"
proof (induction s)
  case Nil
  then show ?case using match_at_groups by fastforce
next
  case (Cons c s)
  then show ?case using match_at_groups by (fastforce split: option.splits)
qed

lemma re_search_group:
  "sets_group k r \<Longrightarrow> re_search r s = Some m \<Longrightarrow> map_of (m_groups m) k \<noteq> None"
  unfolding re_search_def using search_from_groups sets_group_rmatch by blast

lemma re_match_group:
  "sets_group k r \<Longrightarrow> re_match r s = Some m \<Longrightarrow> map_of (m_groups m) k \<noteq> None"
  unfolding re_match_def using match_at_groups sets_group_rmatch by blast

lemma group_pos: "0 < k \<Longrightarrow> group m k = map_of (m_groups m) k"
  by (simp add: group_def)

lemma py_contains_iff:
  "py_contains sub s \<longleftrightarrow> (\<exists>i\<le>length s. take (length sub) (drop i s) = sub)"
  unfolding py_contains_def list_ex_iff set_upt by (auto simp: less_Suc_eq_le)

lemma partition_first_found:
  "sep \<noteq> [] \<Longrightarrow> py_contains sep s \<Longrightarrow> partition_first sep s \<noteq> None"
proof (induction s)
  case Nil
  then show ?case by (simp add: py_contains_iff)
next
  case (Cons c s)
  show ?case
  proof (cases "take (length sep) (c # s) = sep")
    case True then show ?thesis by simp
  next
    case False
    from Cons.prems(2) obtain i where i: "i \<le> length (c # s)" "take (length sep) (drop i (c # s)) = sep"
      unfolding py_contains_iff by blast
    with False have "i \<noteq> 0" by (cases i) auto
    then obtain j where j: "i = Suc j" by (cases i) auto
    with i have "py_contains sep s" unfolding py_contains_iff by auto
    then show ?thesis using Cons.IH Cons.prems(1) False by (auto split: option.splits)
  qed
qed

lemma py_split1_two: "sep \<noteq> [] \<Longrightarrow> py_contains sep s \<Longrightarrow> \<exists>a b. py_split1 s sep = [a, b]"
  using partition_first_found[of sep s] by (auto simp: py_split1_def split: option.splits)

lemma split_words_nonempty:
  "w \<noteq> [] \<or> (\<exists>c \<in> set s. \<not> py_isspace c) \<Longrightarrow> split_words s w \<noteq> []"
  by (induction s w rule: split_words.induct) auto

lemma py_split_nonempty: "\<exists>c \<in> set s. \<not> py_isspace c \<Longrightarrow> py_split s \<noteq> []"
  by (simp add: py_split_def split_words_nonempty)

lemma py_strip_last: "py_strip s \<noteq> [] \<Longrightarrow> \<not> py_isspace (last (py_strip s))"
proof -
  assume a: "py_strip s \<noteq> []"
  let ?r = "dropWhile py_isspace (rev (py_lstrip s))"
  have "?r \<noteq> []" using a by (simp add: py_strip_def py_rstrip_def)
  then have "\<not> py_isspace (hd ?r)" by (rule hd_dropWhile)
  then show ?thesis using a by (simp add: py_strip_def py_rstrip_def last_rev)
qed

section \<open>No parser raises on a text\<close>

lemma py_deps_line_total: "\<not> isl (py_deps_line h deps raw)"
proof -
  have "py_contains ''=='' (py_strip raw) \<Longrightarrow> \<exists>a b. py_split1 (py_strip raw) ''=='' = [a, b]"
    by (rule py_split1_two) simp
  then show ?thesis by (auto simp: py_deps_line_def Let_def)
qed

lemma py_deps_lines_total: "\<not> isl (py_deps_lines h deps ls)"
proof (induction ls arbitrary: deps)
  case Nil
  then show ?case by simp
next
  case (Cons raw ls)
  then show ?case using py_deps_line_total[of h deps raw] by (cases "py_deps_line h deps raw") auto
qed

lemma lines_loop_total:
  "(\<And>d raw. \<not> isl (body d raw)) \<Longrightarrow> \<not> isl (lines_loop body deps ls)"
proof (induction ls arbitrary: deps)
  case Nil
  then show ?case by simp
next
  case (Cons raw ls)
  have "\<not> isl (body deps raw)" by (rule Cons.prems)
  then obtain d' where d: "body deps raw = Inr d'" by (cases "body deps raw") auto
  have "\<not> isl (lines_loop body d' ls)" using Cons.IH Cons.prems by blast
  then show ?case using d by simp
qed

lemma sets_group_cpp: "sets_group 1 cpp_dep_pattern" "sets_group 2 cpp_dep_pattern"
  by (simp_all add: cpp_dep_pattern_def)

lemma first_word_stripped: "\<not> isl (first_word_or_undefined (py_strip v))"
proof (cases "py_strip v = []")
  case True
  then show ?thesis by (simp add: first_word_or_undefined_def)
next
  case False
  then have "\<not> py_isspace (last (py_strip v))" by (rule py_strip_last)
  then have "\<exists>c \<in> set (py_strip v). \<not> py_isspace c" using False last_in_set by blast
  then have "py_split (py_strip v) \<noteq> []" by (rule py_split_nonempty)
  then show ?thesis by (simp add: first_word_or_undefined_def split: list.splits)
qed

lemma cpp_deps_line_total: "\<not> isl (cpp_deps_line h src deps raw)"
proof (cases "re_match cpp_dep_pattern (py_strip raw)")
  case None
  then show ?thesis by (simp add: cpp_deps_line_def)
next
  case (Some m)
  obtain n where g1: "group m (Suc 0) = Some n"
    using re_match_group[OF sets_group_cpp(1) Some] by (auto simp: group_def)
  obtain v where g2: "group m 2 = Some v"
    using re_match_group[OF sets_group_cpp(2) Some] by (auto simp: group_def)
  show ?thesis using first_word_stripped[of v]
    by (cases "first_word_or_undefined (py_strip v)") (simp_all add: cpp_deps_line_def Some g1 g2)
qed

lemma seq_tail:
  assumes "(s', g') \<in> set (rmatch (Seq a b) n (s, g))"
  shows "\<exists>s1 g1 p. s = p @ s1 \<and> (s', g') \<in> set (rmatch b n (s1, g1))"
proof -
  from assms obtain s1 g1 where 1: "(s1, g1) \<in> set (rmatch a n (s, g))"
    and 2: "(s', g') \<in> set (rmatch b n (s1, g1))" by auto
  from rmatch_grow[OF 1] 2 show ?thesis by blast
qed

lemma group2_eol:
  assumes "(s', g') \<in> set (rmatch (Seq (Grp 2 (Many P)) Eol) n (s, g))"
  shows "\<exists>t. map_of g' 2 = Some t \<and> s = t @ s' \<and> (s' = [] \<or> s' = [newline])"
proof -
  from assms obtain s1 g1 where 1: "(s1, g1) \<in> set (rmatch (Grp 2 (Many P)) n (s, g))"
    and 2: "(s', g') \<in> set (rmatch Eol n (s1, g1))" by auto
  from 2 have e: "s' = s1" "g' = g1" "s1 = [] \<or> s1 = [newline]" by (auto split: if_splits)
  from 1 obtain g0 where 3: "(s1, g0) \<in> set (rmatch (Many P) n (s, g))"
    and 4: "g1 = (2, take (length s - length s1) s) # g0" by auto
  from rmatch_grow[OF 3] obtain p where p: "s = p @ s1" by blast
  then have "take (length s - length s1) s = p" by simp
  then show ?thesis using e 4 p by auto
qed

lemma cpp_pattern_group2:
  assumes "(s', g') \<in> set (rmatch cpp_dep_pattern n (line, []))"
  shows "\<exists>t p. map_of g' 2 = Some t \<and> line = p @ t @ s' \<and> (s' = [] \<or> s' = [newline])"
proof -
  from assms have "(s', g') \<in> set (rmatch (Seq Bol (Seq (Grp 1 (Plus cls_ident)) (Seq (Many py_isspace)
      (Seq (Lit '':'') (Seq (Many py_isspace) (Seq (Grp 2 (Many cls_dot)) Eol)))))) n (line, []))"
    by (simp add: cpp_dep_pattern_def)
  from seq_tail[OF this] obtain s1 g1 p1 where 1: "line = p1 @ s1"
    "(s', g') \<in> set (rmatch (Seq (Grp 1 (Plus cls_ident)) (Seq (Many py_isspace)
      (Seq (Lit '':'') (Seq (Many py_isspace) (Seq (Grp 2 (Many cls_dot)) Eol))))) n (s1, g1))" by blast
  from seq_tail[OF 1(2)] obtain s2 g2 p2 where 2: "s1 = p2 @ s2"
    "(s', g') \<in> set (rmatch (Seq (Many py_isspace)
      (Seq (Lit '':'') (Seq (Many py_isspace) (Seq (Grp 2 (Many cls_dot)) Eol)))) n (s2, g2))" by blast
  from seq_tail[OF 2(2)] obtain s3 g3 p3 where 3: "s2 = p3 @ s3"
    "(s', g') \<in> set (rmatch (Seq (Lit '':'') (Seq (Many py_isspace) (Seq (Grp 2 (Many cls_dot)) Eol))) n (s3, g3))" by blast
  from seq_tail[OF 3(2)] obtain s4 g4 p4 where 4: "s3 = p4 @ s4"
    "(s', g') \<in> set (rmatch (Seq (Many py_isspace) (Seq (Grp 2 (Many cls_dot)) Eol)) n (s4, g4))" by blast
  from seq_tail[OF 4(2)] obtain s5 g5 p5 where 5: "s4 = p5 @ s5"
    "(s', g') \<in> set (rmatch (Seq (Grp 2 (Many cls_dot)) Eol) n (s5, g5))" by blast
  from group2_eol[OF 5(2)] obtain t where t: "map_of g' 2 = Some t" "s5 = t @ s'" "s' = [] \<or> s' = [newline]"
    by blast
  have "line = (p1 @ p2 @ p3 @ p4 @ p5) @ t @ s'" using 1(1) 2(1) 3(1) 4(1) 5(1) t(2) by simp
  then show ?thesis using t by blast
qed

lemma py_isspace_newline: "py_isspace newline"
  by (simp add: py_isspace_def newline_def code_def)

lemma first_word_unstripped:
  assumes "re_match cpp_dep_pattern (py_strip raw) = Some m" and "group m 2 = Some v"
  shows "\<not> isl (first_word_or_undefined v)"
proof (cases "v = []")
  case True
  then show ?thesis by (simp add: first_word_or_undefined_def)
next
  case False
  let ?line = "py_strip raw"
  from assms(1) obtain s' where "(s', m_groups m) \<in> set (rmatch cpp_dep_pattern (length ?line) (?line, []))"
    unfolding re_match_def using match_at_groups by blast
  from cpp_pattern_group2[OF this] assms(2) obtain p where p: "?line = p @ v @ s'" "s' = [] \<or> s' = [newline]"
    by (auto simp: group_def)
  have ne: "?line \<noteq> []" using p False by simp
  then have nl: "\<not> py_isspace (last ?line)" by (rule py_strip_last)
  have "s' = []"
  proof (rule ccontr)
    assume "s' \<noteq> []"
    then have "s' = [newline]" using p(2) by simp
    then have "last ?line = newline" using p(1) by simp
    then show False using nl py_isspace_newline by simp
  qed
  then have "last ?line = last v" using p(1) False by simp
  then have "\<exists>c \<in> set v. \<not> py_isspace c" using nl False last_in_set by metis
  then have "py_split v \<noteq> []" by (rule py_split_nonempty)
  then show ?thesis using False by (simp add: first_word_or_undefined_def split: list.splits)
qed

lemma colon_deps_line_total: "\<not> isl (colon_deps_line h src deps raw)"
proof (cases "re_match cpp_dep_pattern (py_strip raw)")
  case None
  then show ?thesis by (simp add: colon_deps_line_def)
next
  case (Some m)
  obtain n where g1: "group m (Suc 0) = Some n"
    using re_match_group[OF sets_group_cpp(1) Some] by (auto simp: group_def)
  obtain v where g2: "group m 2 = Some v"
    using re_match_group[OF sets_group_cpp(2) Some] by (auto simp: group_def)
  show ?thesis using first_word_unstripped[OF Some g2]
    by (cases "first_word_or_undefined v") (simp_all add: colon_deps_line_def Some g1 g2)
qed

lemma nth_checked_ok: "i < length xs \<Longrightarrow> nth_checked xs i = Inr (xs ! i)"
  by (simp add: nth_checked_def)

lemma line_field_ok: "fst st = None \<Longrightarrow> fst (line_field lines i pattern store st) = None"
  by (cases st) (auto simp: line_field_def nth_checked_ok split: option.splits)

lemma sets_group_external: "sets_group 1 external_package_pattern"
  by (simp add: external_package_pattern_def)

lemma packages_loop_ok: "fst (packages_loop ls sec result) = None"
proof (induction ls sec result rule: packages_loop.induct)
  case (1 sec result)
  then show ?case by simp
next
  case (2 raw rest sec result)
  show ?case
  proof (cases "re_search external_package_pattern (py_strip raw)")
    case None
    then show ?thesis using 2 by (simp add: Let_def)
  next
    case (Some m)
    obtain g where g: "group m (Suc 0) = Some g"
      using re_search_group[OF sets_group_external Some] by (auto simp: group_def)
    show ?thesis using 2 Some g by (simp add: Let_def)
  qed
qed

lemma parse_build_info_body_ok: "fst (parse_build_info_body content result) = None"
proof -
  let ?lines = "readlines content"
  let ?st = "line_field ?lines 1 cxx_compiler_pattern (\<lambda>v r. r\<lparr>br_CXX_Compiler := v\<rparr>)
              (line_field ?lines 0 c_compiler_pattern (\<lambda>v r. r\<lparr>br_C_Compiler := v\<rparr>) (None, result))"
  have "fst ?st = None" by (simp add: line_field_ok)
  then obtain r where r: "?st = (None, r)" by (cases ?st) auto
  show ?thesis unfolding parse_build_info_body_def Let_def r by (simp add: packages_loop_ok)
qed

lemma parse_build_info_from_file_body_ok: "fst (parse_build_info_from_file_body content) = None"
proof -
  let ?lines = "readlines content"
  let ?st = "line_field ?lines 24 platform_name_pattern (\<lambda>v d. dict_set d ''Platform'' v)
             (line_field ?lines 1 cxx_compiler_pattern (\<lambda>v d. dict_set d ''CXX Compiler'' v)
              (line_field ?lines 0 c_compiler_pattern (\<lambda>v d. dict_set d ''C Compiler'' v) (None, [])))"
  have "fst ?st = None" by (simp add: line_field_ok)
  then obtain r where r: "?st = (None, r)" by (cases ?st) auto
  show ?thesis unfolding parse_build_info_from_file_body_def Let_def r by simp
qed

lemma sets_group_md: "sets_group 1 (md_row_pattern label)"
  by (simp add: md_row_pattern_def)

lemma md_field_ok: "fst st = None \<Longrightarrow> fst (md_field label key content st) = None"
proof (cases "re_search (md_row_pattern label) content")
  case None
  assume "fst st = None"
  then show ?thesis using None by (cases st) (auto simp: md_field_def)
next
  case (Some m)
  assume a: "fst st = None"
  obtain g where g: "group m (Suc 0) = Some g"
    using re_search_group[OF sets_group_md Some] by (auto simp: group_def)
  show ?thesis using a Some g by (cases st) (auto simp: md_field_def)
qed

lemma sets_group_package: "sets_group 1 package_pattern" "sets_group 2 package_pattern" "sets_group 3 package_pattern"
  by (simp_all add: package_pattern_def Opt_def)

lemma py_split_char_nonempty: "py_split_char c s \<noteq> []"
  by (induction s) (auto split: list.splits)

lemma requirement_line_total: "\<not> isl (requirement_line h rel deps raw)"
proof (cases "re_match package_pattern (py_strip raw)")
  case None
  then show ?thesis using py_split_char_nonempty[of "CHR ''#''" "py_strip raw"]
    by (auto simp: requirement_line_def Let_def split: list.splits)
next
  case (Some m)
  obtain a where g1: "group m (Suc 0) = Some a"
    using re_match_group[OF sets_group_package(1) Some] by (auto simp: group_def)
  obtain b where g2: "group m 2 = Some b"
    using re_match_group[OF sets_group_package(2) Some] by (auto simp: group_def)
  obtain c where g3: "group m 3 = Some c"
    using re_match_group[OF sets_group_package(3) Some] by (auto simp: group_def)
  show ?thesis using Some g1 g2 g3 by (simp add: requirement_line_def Let_def group_str_def)
qed

lemma requirement_lines_caught_ok: "snd (requirement_lines_caught h rel deps ls) = False"
proof (induction ls arbitrary: deps)
  case Nil
  then show ?case by simp
next
  case (Cons raw ls)
  obtain d' where d: "requirement_line h rel deps raw = Inr d'"
    using requirement_line_total[of h rel deps raw] by (cases "requirement_line h rel deps raw") auto
  show ?case using Cons.IH[of d'] d by simp
qed

lemma requirement_line_skips:
  "py_strip raw = [] \<or> startswith (py_strip raw) ''#'' \<Longrightarrow> requirement_line h rel deps raw = Inr deps"
  by (auto simp: requirement_line_def Let_def)

lemma scan_cmake_lines_total:
  "sets_group 1 regex \<Longrightarrow> \<not> isl (scan_cmake_lines dep regex ls)"
proof (induction ls)
  case Nil
  then show ?case by simp
next
  case (Cons line ls)
  show ?case
  proof (cases "re_search regex line")
    case None
    then show ?thesis using Cons by simp
  next
    case (Some m)
    obtain g where g: "group m (Suc 0) = Some g"
      using re_search_group[OF Cons.prems Some] by (auto simp: group_def)
    show ?thesis using Some g by simp
  qed
qed

lemma cmakelists_loop_total:
  assumes "\<forall>dep e. files dep \<noteq> Unreadable e"
    and "\<forall>(dep, prefix, regex) \<in> set table. sets_group 1 regex"
  shows "\<not> isl (cmakelists_loop files table out)"
  using assms(2)
proof (induction table arbitrary: out)
  case Nil
  then show ?case by simp
next
  case (Cons e table)
  obtain dep prefix regex where e: "e = (dep, prefix, regex)" by (cases e)
  have sg: "sets_group 1 regex" using Cons.prems e by simp
  have ih: "\<And>out. \<not> isl (cmakelists_loop files table out)" using Cons by simp
  show ?case
  proof (cases "files dep")
    case NoFile
    then show ?thesis using ih e by simp
  next
    case (Unreadable e)
    then show ?thesis using assms(1) by simp
  next
    case (Text content)
    obtain w where w: "scan_cmake_lines dep regex (readlines content) = Inr w"
      using scan_cmake_lines_total[OF sg, of dep "readlines content"]
      by (cases "scan_cmake_lines dep regex (readlines content)") auto
    show ?thesis using ih e Text w by (cases w) simp_all
  qed
qed

lemma cmake_deps_groups: "\<forall>(dep, prefix, regex) \<in> set cmake_deps. sets_group 1 regex"
  by (simp add: cmake_deps_def boost_regex_def)

lemma parse_cmakelists_total:
  "\<forall>dep e. files dep \<noteq> Unreadable e \<Longrightarrow> \<not> isl (parse_cmakelists files)"
  unfolding parse_cmakelists_def using cmakelists_loop_total cmake_deps_groups by blast

text \<open>
  The parsers that read files. A parser whose file is absent returns its empty result (the
  dependency set as it was, the initial build information, an empty dict) and raises
  nothing. On every text no such parser raises: the exception-raising steps of the bodies
  (an index into the lines, a method of a group, the unpacking of a split, the first word
  of a version) are never reached in a state where they fail. Blank lines and lines that
  the pattern does not match leave the result as it was.
\<close>

lemma file_parsers_never_raise:
  "parse_build_info NoFile = empty_build_result
   \<and> fst (parse_build_info_body content result) = None
   \<and> parse_py_deps h NoFile deps = Inr deps
   \<and> \<not> isl (parse_py_deps h (Text content) deps)
   \<and> (py_strip raw = [] \<longrightarrow> py_deps_line h deps raw = Inr deps)
   \<and> parse_cpp_deps h NoFile deps = Inr deps
   \<and> \<not> isl (parse_cpp_deps h (Text content) deps)
   \<and> parse_py_deps_colon h NoFile deps = Inr deps
   \<and> \<not> isl (parse_py_deps_colon h (Text content) deps)
   \<and> (re_match cpp_dep_pattern (py_strip raw) = None \<longrightarrow>
        cpp_deps_line h src deps raw = Inr deps \<and> colon_deps_line h src deps raw = Inr deps)
   \<and> parse_requirements_file h rel NoFile deps = (deps, True)
   \<and> snd (parse_requirements_file h rel (Text content) deps) = False
   \<and> (py_strip raw = [] \<or> startswith (py_strip raw) ''#'' \<longrightarrow>
        requirement_line h rel deps raw = Inr deps)
   \<and> parse_cmakelists (\<lambda>dep. NoFile) = Inr []
   \<and> ((\<forall>dep e. files dep \<noteq> Unreadable e) \<longrightarrow> \<not> isl (parse_cmakelists files))
   \<and> parse_build_info_from_file NoFile = []
   \<and> fst (parse_build_info_from_file_body content) = None
   \<and> parse_build_info_from_markdown NoFile = []"
proof -
  have 1: "\<not> isl (parse_py_deps h (Text content) deps)"
    by (simp add: parse_py_deps_def py_deps_lines_total)
  have 2: "\<not> isl (parse_cpp_deps h (Text content) deps)"
    unfolding parse_cpp_deps_def using lines_loop_total[of "cpp_deps_line h ''cppDep.txt''"] cpp_deps_line_total
    by simp
  have 3: "\<not> isl (parse_py_deps_colon h (Text content) deps)"
    unfolding parse_py_deps_colon_def using lines_loop_total[of "colon_deps_line h ''pyDep.txt''"] colon_deps_line_total
    by simp
  have 4: "snd (parse_requirements_file h rel (Text content) deps) = False"
    by (simp add: parse_requirements_file_def requirement_lines_caught_ok)
  have 5: "parse_cmakelists (\<lambda>dep. NoFile) = Inr []"
    by (simp add: parse_cmakelists_def cmake_deps_def)
  have 6: "py_strip raw = [] \<longrightarrow> py_deps_line h deps raw = Inr deps"
    by (simp add: py_deps_line_def)
  have 7: "re_match cpp_dep_pattern (py_strip raw) = None \<longrightarrow>
        cpp_deps_line h src deps raw = Inr deps \<and> colon_deps_line h src deps raw = Inr deps"
    by (simp add: cpp_deps_line_def colon_deps_line_def)
  have 8: "parse_build_info NoFile = empty_build_result" "parse_py_deps h NoFile deps = Inr deps"
    "parse_cpp_deps h NoFile deps = Inr deps" "parse_py_deps_colon h NoFile deps = Inr deps"
    "parse_requirements_file h rel NoFile deps = (deps, True)"
    "parse_build_info_from_file NoFile = []" "parse_build_info_from_markdown NoFile = []"
    by (simp_all add: parse_build_info_def parse_py_deps_def parse_cpp_deps_def parse_py_deps_colon_def
        parse_requirements_file_def parse_build_info_from_file_def parse_build_info_from_markdown_def)
  show ?thesis
    using 1 2 3 4 5 6 7 8 parse_build_info_body_ok[of content result]
      parse_build_info_from_file_body_ok[of content] requirement_line_skips[of raw h rel deps]
      parse_cmakelists_total[of files]
    by blast
qed


section \<open>The fetch of the package index\<close>

lemma urlopen_space:
  "urlopen_read network ''https://lcginfo.cern.ch/release_packages/106b/x86 64/'' = Inl InvalidURL"
  by (simp add: urlopen_read_def url_disallowed_def code_def)

text \<open>
  C9 fails on the code, for the parser of the remote index. A release line of the build log
  that names the platform \<open>x86 64\<close> gives that platform to
  \<open>fetch_and_parse_lcg_packages\<close>, whose \<open>urlopen\<close> then raises \<open>InvalidURL\<close>; the
  function catches \<open>URLError\<close> only, so whatever the network and the fallback file are,
  the exception leaves the parser.
\<close>

theorem lcg_fetch_raises_invalid_url:
  "br_lcg_version (parse_build_info (Text spaced_build_log)) = Some ''106b''
   \<and> br_platform (parse_build_info (Text spaced_build_log)) = Some ''x86 64''
   \<and> fetch_lcg_page network fallback ''106b'' ''x86 64'' = Inl InvalidURL"
proof -
  have "parse_build_info (Text spaced_build_log) =
      \<lparr>br_lcg_version = Some ''106b'', br_platform = Some ''x86 64'', br_packages = [],
       br_C_Compiler = None, br_CXX_Compiler = None, br_Platform = None\<rparr>"
    by code_simp
  then show ?thesis by (simp add: fetch_lcg_page_def urlopen_space)
qed

section \<open>Two generations in a row\<close>

lemma search_skip:
  "x \<noteq> c \<Longrightarrow> search_from (Seq (Lit (c # w)) r) n (x # xs) = search_from (Seq (Lit (c # w)) r) n xs"
  by (simp add: match_at_def)

lemma search_hit:
  "search_from (Seq (Lit (c # w)) r) n (c # xs) =
     (case match_at (Seq (Lit (c # w)) r) n (c # xs) of Some m \<Rightarrow> Some m
      | None \<Rightarrow> search_from (Seq (Lit (c # w)) r) n xs)"
  by simp

lemma search_end: "search_from (Seq (Lit (c # w)) r) n [] = None"
  by (simp add: match_at_def)

lemmas search_eval = search_skip search_hit search_end match_at_def py_isspace_def code_def cls_dot_def newline_def

lemma example_build_info: "parse_build_info (Text example_build_log) = example_build_result"
  by code_simp

lemma example_from_file: "parse_build_info_from_file (Text example_build_log)
     = [(''C Compiler'', Some ''GNU 13.1.0''), (''CXX Compiler'', Some ''GNU 13.1.0''),
        (''lcg_version'', Some ''106b_ATLAS_1''), (''platform'', Some ''x86_64-el9-gcc13-opt'')]"
  by code_simp

lemma example_report_eq:
  "generate_markdown_report ''2025-01-01 00:00:00'' example_dependencies ''24.0'' (Some example_build_result)
     = example_report"
proof -
  have "str_nat (Suc 0) = ''1''" by code_simp
  then show ?thesis
    by (simp add: generate_markdown_report_def example_dependencies_def example_build_result_def
        example_report_def fmt_def version_or_undefined_def truthy_def newline_def)
qed

lemma example_generate:
  "generate ''2025-01-01 00:00:00'' ''urn:uuid:1'' example_dependencies
      \<lparr>wd_json = j, wd_md = m, wd_build_txt = Text example_build_log, wd_sboms = e\<rparr>
   = \<lparr>wd_json = Some example_candidate, wd_md = Text example_report,
      wd_build_txt = Text example_build_log, wd_sboms = e\<rparr>"
  by (simp add: generate_def example_build_info example_report_eq example_candidate_def)
     (simp add: example_build_result_def truthy_def)

lemma example_rows:
  "search_from (md_row_pattern ''C Compiler'') n example_report
     = Some \<lparr>m_text = ''| C Compiler | GNU 13.1.0 |'', m_groups = [(1, ''GNU 13.1.0'')]\<rparr>"
  "search_from (md_row_pattern ''CXX Compiler'') n example_report
     = Some \<lparr>m_text = ''| CXX Compiler | GNU 13.1.0 |'', m_groups = [(1, ''GNU 13.1.0'')]\<rparr>"
  "search_from (md_row_pattern ''Platform'') n example_report
     = Some \<lparr>m_text = ''| Platform | None |'', m_groups = [(1, ''None'')]\<rparr>"
  "search_from (md_row_pattern ''LCG Version'') n example_report
     = Some \<lparr>m_text = ''| LCG Version | 106b_ATLAS_1 |'', m_groups = [(1, ''106b_ATLAS_1'')]\<rparr>"
  unfolding example_report_def md_row_pattern_def
  by (simp_all add: search_eval del: search_from.simps)

lemma strip_examples:
  "py_strip ''GNU 13.1.0'' = ''GNU 13.1.0''" "py_strip ''None'' = ''None''"
  "py_strip ''106b_ATLAS_1'' = ''106b_ATLAS_1''"
  by code_simp+

lemma example_from_markdown:
  "parse_build_info_from_markdown (Text example_report)
     = [(''C Compiler'', Some ''GNU 13.1.0''), (''CXX Compiler'', Some ''GNU 13.1.0''),
        (''Platform'', Some ''None''), (''lcg_version'', Some ''106b_ATLAS_1'')]"
  by (simp add: parse_build_info_from_markdown_def md_field_def re_search_def example_rows group_def
      strip_examples dict_set_def)


lemma signature_build_info:
  "get_sbom_signature a (Some b1) = get_sbom_signature c (Some b2) \<Longrightarrow> set b1 = set b2"
  by (auto simp: get_sbom_signature_def Let_def split: if_splits) (metis set_sort)+

lemma example_signatures_differ:
  "get_sbom_signature recent (Some (parse_build_info_from_markdown (Text example_report)))
   \<noteq> get_sbom_signature new (Some (parse_build_info_from_file (Text example_build_log)))"
proof
  assume "get_sbom_signature recent (Some (parse_build_info_from_markdown (Text example_report)))
     = get_sbom_signature new (Some (parse_build_info_from_file (Text example_build_log)))"
  then have e: "set (parse_build_info_from_markdown (Text example_report))
     = set (parse_build_info_from_file (Text example_build_log))" by (rule signature_build_info)
  have 1: "(''platform'', Some ''x86_64-el9-gcc13-opt'') \<in> set (parse_build_info_from_file (Text example_build_log))"
    unfolding example_from_file by simp
  have 2: "(''platform'', Some ''x86_64-el9-gcc13-opt'') \<notin> set (parse_build_info_from_markdown (Text example_report))"
    unfolding example_from_markdown by simp
  from e 1 2 show False by blast
qed

lemma main_fresh:
  "main \<lparr>wd_json = Some new, wd_md = md, wd_build_txt = b, wd_sboms = None\<rparr>
     = Inr (Saved 1, \<lparr>wd_json = None, wd_md = NoFile, wd_build_txt = b,
                      wd_sboms = Some [(''v1'', Entry_dir \<lparr>vd_json = Some new, vd_md = md\<rparr>)]\<rparr>)"
proof -
  have s: "str_int 1 = ''1''" by code_simp
  show ?thesis by (simp add: main_def s)
qed

lemma example_first_run:
  "full_generation ''2025-01-01 00:00:00'' ''urn:uuid:1'' example_dependencies example_workdir
     = Inr (Saved 1, example_stored_once)"
  by (simp add: full_generation_def example_workdir_def example_generate main_fresh example_stored_once_def)

lemma most_recent_v1:
  "most_recent [(''v1'', Entry_dir d)] 0 None = (1, Some d)"
proof -
  have p: "python_int ''1'' = Some 1" by code_simp
  have sw: "startswith ''v1'' ''v''" by code_simp
  show ?thesis by (simp add: p sw)
qed

lemma main_second:
  assumes "get_sbom_signature recent (Some (parse_build_info_from_markdown rmd))
           \<noteq> get_sbom_signature new (Some (parse_build_info_from_file b))"
  shows "main \<lparr>wd_json = Some new, wd_md = md, wd_build_txt = b,
               wd_sboms = Some [(''v1'', Entry_dir \<lparr>vd_json = Some recent, vd_md = rmd\<rparr>)]\<rparr>
     = Inr (Saved 2, \<lparr>wd_json = None, wd_md = NoFile, wd_build_txt = b,
                      wd_sboms = Some [(''v1'', Entry_dir \<lparr>vd_json = Some recent, vd_md = rmd\<rparr>),
                                       (''v2'', Entry_dir \<lparr>vd_json = Some new, vd_md = md\<rparr>)]\<rparr>)"
proof -
  have s: "str_int 2 = ''2''" by code_simp
  show ?thesis using assms by (simp add: main_def most_recent_v1 s del: most_recent.simps)
qed

lemma example_second_run:
  "full_generation ''2025-01-01 00:00:00'' ''urn:uuid:1'' example_dependencies example_stored_once
     = Inr (Saved 2,
       \<lparr>wd_json = None, wd_md = NoFile, wd_build_txt = Text example_build_log,
        wd_sboms = Some [(''v1'', Entry_dir \<lparr>vd_json = Some example_candidate, vd_md = Text example_report\<rparr>),
                         (''v2'', Entry_dir \<lparr>vd_json = Some example_candidate, vd_md = Text example_report\<rparr>)]\<rparr>)"
  unfolding full_generation_def example_stored_once_def example_generate
  by (rule main_second) (rule example_signatures_differ)

lemma first_line_match_cases:
  "first_line_match p store ls r =
     (case first_line_match p (\<lambda>m _. Some m) ls None of None \<Rightarrow> r | Some m \<Rightarrow> store m r)"
  by (induction ls) (auto split: option.splits)

lemma packages_loop_keeps:
  "br_lcg_version (snd (packages_loop ls sec r)) = br_lcg_version r"
  by (induction ls sec r rule: packages_loop.induct) (auto simp: Let_def split: option.splits)

lemma line_field_keeps:
  assumes "\<And>v r. br_lcg_version (store v r) = br_lcg_version r"
  shows "br_lcg_version (snd (line_field ls i p store st)) = br_lcg_version (snd st)"
  using assms by (cases st) (auto simp: line_field_def split: option.splits sum.splits)

lemma first_line_match_keeps:
  assumes "\<And>m r. br_lcg_version (store m r) = br_lcg_version r"
  shows "br_lcg_version (first_line_match p store ls r) = br_lcg_version r"
  using assms by (induction ls) (auto split: option.splits)

lemma release_match_version:
  "br_lcg_version (first_line_match p (\<lambda>m r. r\<lparr>br_lcg_version := f m, br_platform := g m\<rparr>) ls r) =
     (case first_line_match p (\<lambda>m _. Some m) ls None of
        None \<Rightarrow> br_lcg_version r | Some m \<Rightarrow> f m)"
  by (induction ls) (auto split: option.splits)

lemma build_info_lcg:
  "br_lcg_version (snd (parse_build_info_body content empty_build_result)) =
     (case first_line_match lcg_release_pattern (\<lambda>m _. Some m) (readlines content) None of
        None \<Rightarrow> None | Some m \<Rightarrow> group m 1)"
proof -
  let ?lines = "readlines content"
  let ?st = "line_field ?lines 1 cxx_compiler_pattern (\<lambda>v r. r\<lparr>br_CXX_Compiler := v\<rparr>)
              (line_field ?lines 0 c_compiler_pattern (\<lambda>v r. r\<lparr>br_C_Compiler := v\<rparr>) (None, empty_build_result))"
  have f: "fst ?st = None" by (simp add: line_field_ok)
  have k: "br_lcg_version (snd ?st) = None"
    by (simp add: line_field_keeps empty_build_result_def)
  obtain r where r: "?st = (None, r)" using f by (cases ?st) auto
  have rl: "br_lcg_version r = None" using k r by simp
  let ?r1 = "first_line_match lcg_release_pattern
             (\<lambda>m r. r\<lparr>br_lcg_version := group m 1, br_platform := group m 2\<rparr>) ?lines r"
  let ?r2 = "first_line_match platform_name_pattern (\<lambda>m r. r\<lparr>br_Platform := group m 1\<rparr>) ?lines ?r1"
  have e: "parse_build_info_body content empty_build_result = packages_loop ?lines False ?r2"
    unfolding parse_build_info_body_def Let_def r by simp
  have "br_lcg_version (snd (packages_loop ?lines False ?r2)) = br_lcg_version ?r2"
    by (rule packages_loop_keeps)
  also have "\<dots> = br_lcg_version ?r1"
    by (rule first_line_match_keeps) simp
  also have "\<dots> = (case first_line_match lcg_release_pattern (\<lambda>m _. Some m) ?lines None of
        None \<Rightarrow> br_lcg_version r | Some m \<Rightarrow> group m 1)"
    by (rule release_match_version)
  finally show ?thesis unfolding e rl .
qed

lemma generated_has_release_line:
  assumes "truthy (br_lcg_version (parse_build_info build_txt))"
  shows "\<exists>content m. build_txt = Text content
           \<and> first_line_match lcg_release_pattern (\<lambda>m _. Some m) (readlines content) None = Some m"
proof (cases build_txt)
  case NoFile
  then show ?thesis using assms by (simp add: parse_build_info_def empty_build_result_def truthy_def)
next
  case (Unreadable e)
  then show ?thesis using assms by (simp add: parse_build_info_def empty_build_result_def truthy_def)
next
  case (Text content)
  then show ?thesis using assms build_info_lcg[of content]
    by (auto simp: parse_build_info_def truthy_def split: option.splits)
qed

lemma release_match_platform:
  "first_line_match p (\<lambda>m _. Some m) ls None = Some m \<Longrightarrow>
   ''platform'' \<in> fst ` set (first_line_match p
       (\<lambda>m d. dict_set (dict_set d ''lcg_version'' (group m 1)) ''platform'' (group m 2)) ls d)"
  by (induction ls) (auto simp: dict_set_def AList.dom_update split: option.splits)

lemma from_file_platform:
  assumes "first_line_match lcg_release_pattern (\<lambda>m _. Some m) (readlines content) None = Some m"
  shows "''platform'' \<in> fst ` set (parse_build_info_from_file (Text content))"
proof -
  let ?lines = "readlines content"
  let ?st = "line_field ?lines 24 platform_name_pattern (\<lambda>v d. dict_set d ''Platform'' v)
             (line_field ?lines 1 cxx_compiler_pattern (\<lambda>v d. dict_set d ''CXX Compiler'' v)
              (line_field ?lines 0 c_compiler_pattern (\<lambda>v d. dict_set d ''C Compiler'' v) (None, [])))"
  have "fst ?st = None" by (simp add: line_field_ok)
  then obtain d where d: "?st = (None, d)" by (cases ?st) auto
  have "parse_build_info_from_file_body content =
      (None, first_line_match lcg_release_pattern
               (\<lambda>m d. dict_set (dict_set d ''lcg_version'' (group m 1)) ''platform'' (group m 2))
               ?lines d)"
    unfolding parse_build_info_from_file_body_def Let_def d by simp
  then show ?thesis
    using release_match_platform[OF assms, of d] by (simp add: parse_build_info_from_file_def)
qed

lemma md_field_keys:
  "fst ` set (snd (md_field label key content st)) \<subseteq> insert key (fst ` set (snd st))"
  by (cases st) (auto simp: md_field_def dict_set_def AList.dom_update split: option.splits)

lemma from_markdown_keys:
  "fst ` set (parse_build_info_from_markdown f)
     \<subseteq> {''C Compiler'', ''CXX Compiler'', ''Platform'', ''lcg_version''}"
proof (cases f)
  case (Text content)
  let ?s1 = "md_field ''C Compiler'' ''C Compiler'' content (None, [])"
  let ?s2 = "md_field ''CXX Compiler'' ''CXX Compiler'' content ?s1"
  let ?s3 = "md_field ''Platform'' ''Platform'' content ?s2"
  let ?s4 = "md_field ''LCG Version'' ''lcg_version'' content ?s3"
  have 1: "fst ` set (snd ?s1) \<subseteq> {''C Compiler''}"
    using md_field_keys[of "''C Compiler''" "''C Compiler''" content "(None, [])"] by simp
  have 2: "fst ` set (snd ?s2) \<subseteq> {''C Compiler'', ''CXX Compiler''}"
    using md_field_keys[of "''CXX Compiler''" "''CXX Compiler''" content ?s1] 1 by blast
  have 3: "fst ` set (snd ?s3) \<subseteq> {''C Compiler'', ''CXX Compiler'', ''Platform''}"
    using md_field_keys[of "''Platform''" "''Platform''" content ?s2] 2 by blast
  have 4: "fst ` set (snd ?s4) \<subseteq> {''C Compiler'', ''CXX Compiler'', ''Platform'', ''lcg_version''}"
    using md_field_keys[of "''LCG Version''" "''lcg_version''" content ?s3] 3 by blast
  show ?thesis unfolding Text parse_build_info_from_markdown_def using 4 by simp
qed (simp_all add: parse_build_info_from_markdown_def)

lemma platform_not_from_markdown: "''platform'' \<notin> fst ` set (parse_build_info_from_markdown f)"
proof
  assume "''platform'' \<in> fst ` set (parse_build_info_from_markdown f)"
  then have "''platform'' \<in> {''C Compiler'', ''CXX Compiler'', ''Platform'', ''lcg_version''}"
    by (rule subsetD[OF from_markdown_keys])
  then show False by simp
qed

lemma main_not_duplicate:
  assumes "wd_json wd = Some new"
    and "''platform'' \<in> fst ` set (parse_build_info_from_file (wd_build_txt wd))"
  shows "main wd \<noteq> Inr (Duplicate v, wd')"
proof -
  have ne: "\<And>recent f. get_sbom_signature recent (Some (parse_build_info_from_markdown f))
      \<noteq> get_sbom_signature new (Some (parse_build_info_from_file (wd_build_txt wd)))"
  proof
    fix recent f
    assume "get_sbom_signature recent (Some (parse_build_info_from_markdown f))
      = get_sbom_signature new (Some (parse_build_info_from_file (wd_build_txt wd)))"
    then have "set (parse_build_info_from_markdown f) = set (parse_build_info_from_file (wd_build_txt wd))"
      by (rule signature_build_info)
    then show False using assms(2) platform_not_from_markdown[of f] by simp
  qed
  obtain mv mr where mr: "most_recent (case wd_sboms wd of None \<Rightarrow> [] | Some es \<Rightarrow> es) 0 None = (mv, mr)"
    by (cases "most_recent (case wd_sboms wd of None \<Rightarrow> [] | Some es \<Rightarrow> es) 0 None")
  show ?thesis
    unfolding main_def Let_def assms(1) mr
    by (simp add: ne split: option.splits dir_entry.splits)
qed

text \<open>
  Whenever the generator writes a candidate, the gate that follows does not report a
  duplicate, whatever the versions directory holds: the candidate exists only if the build
  log has a release line, and then the new build information has the key \<open>platform\<close>,
  which no stored report gives back.
\<close>

lemma gate_never_duplicate:
  assumes "wd_json (generate now serial dependencies wd) \<noteq> wd_json wd"
  shows "full_generation now serial dependencies wd \<noteq> Inr (Duplicate v, wd')"
proof -
  have t: "truthy (br_lcg_version (parse_build_info (wd_build_txt wd)))"
    using assms by (auto simp: generate_def Let_def split: if_splits)
  then obtain content m where c: "wd_build_txt wd = Text content"
    "first_line_match lcg_release_pattern (\<lambda>m _. Some m) (readlines content) None = Some m"
    using generated_has_release_line by blast
  have g: "generate now serial dependencies wd =
      wd\<lparr>wd_json := Some (generate_cyclonedx_sbom now serial dependencies ''24.0''),
         wd_md := Text (generate_markdown_report now dependencies ''24.0''
                          (Some (parse_build_info (wd_build_txt wd))))\<rparr>"
    using assms by (auto simp: generate_def Let_def split: if_splits)
  show ?thesis
    unfolding full_generation_def g
    by (rule main_not_duplicate[where new = "generate_cyclonedx_sbom now serial dependencies ''24.0''"])
       (simp_all add: c from_file_platform)
qed

text \<open>
  C1 fails on the code. With the build log, the dependencies and the clock unchanged, the
  first generation stores \<open>v1\<close> and the second one, instead of being reported as a
  duplicate, stores \<open>v2\<close>: the build information of the new run, parsed from the build
  log, has the key \<open>platform\<close>, which the table of the stored report never gives back
  (and the report gives \<open>Platform\<close> as the text \<open>None\<close>), so the two signatures
  differ.
\<close>

theorem generation_twice_two_versions:
  "full_generation ''2025-01-01 00:00:00'' ''urn:uuid:1'' example_dependencies example_workdir
     = Inr (Saved 1, example_stored_once)
   \<and> wd_build_txt example_stored_once = wd_build_txt example_workdir
   \<and> map_sum id fst
        (full_generation ''2025-01-01 00:00:00'' ''urn:uuid:1'' example_dependencies example_stored_once)
     = Inr (Saved 2)
   \<and> map_option (map fst)
        (wd_sboms (snd (projr (full_generation ''2025-01-01 00:00:00'' ''urn:uuid:1''
                                 example_dependencies example_stored_once))))
     = Some [''v1'', ''v2'']
   \<and> parse_build_info_from_file (Text example_build_log)
     = [(''C Compiler'', Some ''GNU 13.1.0''), (''CXX Compiler'', Some ''GNU 13.1.0''),
        (''lcg_version'', Some ''106b_ATLAS_1''), (''platform'', Some ''x86_64-el9-gcc13-opt'')]
   \<and> parse_build_info_from_markdown (Text example_report)
     = [(''C Compiler'', Some ''GNU 13.1.0''), (''CXX Compiler'', Some ''GNU 13.1.0''),
        (''Platform'', Some ''None''), (''lcg_version'', Some ''106b_ATLAS_1'')]"
  unfolding example_first_run example_second_run example_from_file example_from_markdown
  by (simp add: example_stored_once_def example_workdir_def)

end
